theory Spec2Isabelle
  imports Complex_Main "HOL-Library.Product_Lexorder"
begin

section \<open>Python values used by healthkit_dashboard.py\<close>

text \<open>
  Exceptions are values. Only the kinds the program can meet are listed; \<open>OtherError\<close>
  stands for any further subclass of \<open>Exception\<close>.
\<close>

datatype exn =
    ParseError | OSError | ValueError | TypeError | KeyError | IndexError
  | AttributeError | StopIteration | OtherError

text \<open>
  A Python float is a finite double, one of the two infinities, or a NaN. A finite double
  is represented by the rational number it denotes (the sign of zero is not kept).
\<close>

datatype pyfloat = Finite rat | PosInf | NegInf | NaN

fun isfinite :: "pyfloat \<Rightarrow> bool" where
  "isfinite (Finite q) = True"
| "isfinite PosInf = False"
| "isfinite NegInf = False"
| "isfinite NaN = False"

text \<open>
  A calendar date is (year, month, day); the order on dates is the lexicographic one,
  which is how Python compares \<open>datetime.date\<close> objects.
\<close>

type_synonym date = "nat \<times> nat \<times> nat"

text \<open>
  An offset-aware \<open>datetime\<close>: wall-clock fields and the offset from UTC in seconds.
\<close>

record datetime =
  year :: nat
  month :: nat
  day :: nat
  hour :: nat
  minute :: nat
  second :: nat
  utcoffset :: int

definition dt_date :: "datetime \<Rightarrow> date" where
  "dt_date t = (year t, month t, day t)"

text \<open>
  An element of the tree built by \<open>xml.etree.ElementTree\<close>: tag, attributes, children.
\<close>

datatype xml = Element (tag: string) (attrib: "(string \<times> string) list") (children: "xml list")

text \<open>\<open>element.get(key)\<close>: the attribute, or \<open>None\<close>.\<close>

definition get :: "xml \<Rightarrow> string \<Rightarrow> string option" where
  "get e k = map_of (attrib e) k"

text \<open>All elements strictly below an element, in document order.\<close>

fun descendants :: "xml \<Rightarrow> xml list" where
  "descendants (Element t a cs) = concat (map (\<lambda>c. c # descendants c) cs)"

text \<open>\<open>root.findall('.//Record')\<close>\<close>

definition findall_Record :: "xml \<Rightarrow> xml list" where
  "findall_Record root_element = filter (\<lambda>e. tag e = ''Record'') (descendants root_element)"

text \<open>\<open>needle in haystack\<close> on strings.\<close>

fun str_in :: "string \<Rightarrow> string \<Rightarrow> bool" where
  "str_in needle [] = (needle = [])"
| "str_in needle (c # cs) = (take (length needle) (c # cs) = needle \<or> str_in needle cs)"

section \<open>The metric catalog\<close>

text \<open>The dictionary \<open>HEALTHKIT_METRICS\<close>, in insertion order.\<close>

definition HEALTHKIT_METRICS :: "(string \<times> string list) list" where
  "HEALTHKIT_METRICS =
    [(''Activity'',
       [''HKQuantityTypeIdentifierStepCount'',
        ''HKQuantityTypeIdentifierDistanceWalkingRunning'',
        ''HKQuantityTypeIdentifierFlightsClimbed'',
        ''HKQuantityTypeIdentifierActiveEnergyBurned'',
        ''HKQuantityTypeIdentifierBasalEnergyBurned'']),
     (''Vital Signs'',
       [''HKQuantityTypeIdentifierHeartRate'',
        ''HKQuantityTypeIdentifierRestingHeartRate'',
        ''HKQuantityTypeIdentifierHeartRateVariabilitySDNN'',
        ''HKQuantityTypeIdentifierOxygenSaturation'',
        ''HKQuantityTypeIdentifierRespiratoryRate'',
        ''HKQuantityTypeIdentifierBodyTemperature'',
        ''HKQuantityTypeIdentifierBloodPressureSystolic'',
        ''HKQuantityTypeIdentifierBloodPressureDiastolic'']),
     (''Body Measurements'',
       [''HKQuantityTypeIdentifierHeight'',
        ''HKQuantityTypeIdentifierBodyMass'',
        ''HKQuantityTypeIdentifierBodyFatPercentage'',
        ''HKQuantityTypeIdentifierLeanBodyMass'',
        ''HKQuantityTypeIdentifierBodyMassIndex'']),
     (''Sleep'',
       [''HKCategoryTypeIdentifierSleepAnalysis'']),
     (''Nutrition'',
       [''HKQuantityTypeIdentifierDietaryWater'',
        ''HKQuantityTypeIdentifierDietaryEnergyConsumed'',
        ''HKQuantityTypeIdentifierDietaryProtein'',
        ''HKQuantityTypeIdentifierDietaryFatTotal'',
        ''HKQuantityTypeIdentifierDietaryCarbohydrates'']),
     (''Mindfulness'',
       [''HKCategoryTypeIdentifierMindfulSession''])]"

text \<open>
  \<open>all_metrics = [metric for category in HEALTHKIT_METRICS.values() for metric in category]\<close>
\<close>

definition all_metrics :: "string list" where
  "all_metrics = concat (map snd HEALTHKIT_METRICS)"

text \<open>
  \<open>next(cat for cat, metrics in HEALTHKIT_METRICS.items() if record_type in metrics)\<close>:
  the first category whose list holds the identifier; \<open>next\<close> on an exhausted generator
  raises \<open>StopIteration\<close>.
\<close>

definition next_category :: "string \<Rightarrow> exn + string" where
  "next_category record_type =
     (case filter (\<lambda>(cat, metrics). record_type \<in> set metrics) HEALTHKIT_METRICS of
        [] \<Rightarrow> Inl StopIteration
      | (cat, metrics) # _ \<Rightarrow> Inr cat)"

section \<open>The record extractor: parse_healthkit_export\<close>

text \<open>One dictionary appended to \<open>records\<close>, that is one row of the returned DataFrame.\<close>

record observation =
  r_type :: string
  r_value :: pyfloat
  r_unit :: "string option"
  r_date :: datetime
  r_category :: string

text \<open>What the program passes to \<open>st.error\<close>.\<close>

datatype st_call = St_error exn

text \<open>
  The library functions the extractor calls are arguments of the model:
  \<^item> \<open>ET_parse\<close> is \<open>ET.parse\<close> followed by \<open>getroot\<close>: the root element, or the
    exception raised for an unreadable or ill-formed document;
  \<^item> \<open>float\<close> is Python's \<open>float\<close> applied to the result of \<open>record.get('value')\<close>;
  \<^item> \<open>strptime\<close> is \<open>datetime.strptime(_, '%Y-%m-%d %H:%M:%S %z')\<close> applied to the
    result of \<open>record.get('startDate')\<close>.
  The body of the inner \<open>try\<close>, in evaluation order: the value, then the dictionary's
  entries (unit, date, category).
\<close>

definition try_body ::
  "(string option \<Rightarrow> exn + pyfloat) \<Rightarrow> (string option \<Rightarrow> exn + datetime) \<Rightarrow>
     xml \<Rightarrow> string \<Rightarrow> exn + observation" where
  "try_body float strptime record record_type =
     (case float (get record ''value'') of
        Inl e \<Rightarrow> Inl e
      | Inr v \<Rightarrow>
          (case strptime (get record ''startDate'') of
             Inl e \<Rightarrow> Inl e
           | Inr d \<Rightarrow>
               (case next_category record_type of
                  Inl e \<Rightarrow> Inl e
                | Inr cat \<Rightarrow>
                    Inr \<lparr>r_type = record_type, r_value = v, r_unit = get record ''unit'',
                         r_date = d, r_category = cat\<rparr>)))"

text \<open>
  One iteration of the \<open>for\<close> loop. \<open>Inr None\<close>: nothing appended (type not recognised, or
  \<open>ValueError\<close>/\<open>TypeError\<close> caught and \<open>continue\<close>); \<open>Inr (Some row)\<close>: the row appended;
  \<open>Inl e\<close>: an exception the inner handler does not catch.
\<close>

definition loop_body ::
  "(string option \<Rightarrow> exn + pyfloat) \<Rightarrow> (string option \<Rightarrow> exn + datetime) \<Rightarrow>
     xml \<Rightarrow> exn + observation option" where
  "loop_body float strptime record =
     (case get record ''type'' of
        None \<Rightarrow> Inr None
      | Some record_type \<Rightarrow>
          if record_type \<in> set all_metrics then
            (case try_body float strptime record record_type of
               Inr row \<Rightarrow> Inr (Some row)
             | Inl e \<Rightarrow> if e = ValueError \<or> e = TypeError then Inr None else Inl e)
          else Inr None)"

text \<open>The \<open>for\<close> loop over the found elements, with the list \<open>records\<close> it extends.\<close>

fun for_records ::
  "(string option \<Rightarrow> exn + pyfloat) \<Rightarrow> (string option \<Rightarrow> exn + datetime) \<Rightarrow>
     xml list \<Rightarrow> observation list \<Rightarrow> exn + observation list" where
  "for_records float strptime [] records = Inr records"
| "for_records float strptime (record # rest) records =
     (case loop_body float strptime record of
        Inl e \<Rightarrow> Inl e
      | Inr None \<Rightarrow> for_records float strptime rest records
      | Inr (Some row) \<Rightarrow> for_records float strptime rest (records @ [row]))"

text \<open>
  The function: the calls made to \<open>st.error\<close>, and the returned value (\<open>None\<close>, or the
  DataFrame, which is the list of its rows).
\<close>

definition parse_healthkit_export ::
  "('f \<Rightarrow> exn + xml) \<Rightarrow> (string option \<Rightarrow> exn + pyfloat) \<Rightarrow>
     (string option \<Rightarrow> exn + datetime) \<Rightarrow> 'f \<Rightarrow> st_call list \<times> observation list option" where
  "parse_healthkit_export ET_parse float strptime uploaded_file =
     (case ET_parse uploaded_file of
        Inl e \<Rightarrow> ([St_error e], None)
      | Inr root_element \<Rightarrow>
          (case for_records float strptime (findall_Record root_element) [] of
             Inl e \<Rightarrow> ([St_error e], None)
           | Inr records \<Rightarrow> ([], Some records)))"

section \<open>The daily aggregator: create_visualization\<close>

text \<open>
  The DataFrame \<open>df\<close> is the list of its rows. pandas stores the column \<open>date\<close> with a
  datetime dtype when all the offset-aware values share one UTC offset, and as plain
  objects otherwise; the accessor \<open>.dt\<close> raises \<open>AttributeError\<close> on a column of plain
  objects. (The nanosecond range of pandas timestamps is not modelled.)
\<close>

definition datetimelike :: "datetime list \<Rightarrow> bool" where
  "datetimelike col = (\<forall>a \<in> set col. \<forall>b \<in> set col. utcoffset a = utcoffset b)"

text \<open>
  The boolean mask of the first statement, for one row: \<open>.dt.date\<close> is the wall-clock
  date of the row.
\<close>

definition in_filter :: "string \<Rightarrow> date \<Rightarrow> date \<Rightarrow> observation \<Rightarrow> bool" where
  "in_filter metric_type start_date end_date r =
     (r_type r = metric_type \<and> dt_date (r_date r) \<ge> start_date \<and> dt_date (r_date r) \<le> end_date)"

text \<open>
  \<open>filtered_df.groupby(filtered_df['date'].dt.date)\<close>: one group per distinct date, keys
  in ascending order, each group holding the column \<open>value\<close> of its rows in their order
  in the frame.
\<close>

definition groupby_date :: "observation list \<Rightarrow> (date \<times> pyfloat list) list" where
  "groupby_date filtered_df =
     map (\<lambda>d. (d, map r_value (filter (\<lambda>r. dt_date (r_date r) = d) filtered_df)))
       (sort (remdups (map (\<lambda>r. dt_date (r_date r)) filtered_df)))"

text \<open>
  \<open>daily_data\<close> after \<open>reset_index\<close>: the columns date, value.mean, value.min, value.max
  in the heart-rate branch, the columns date, value in the other branch.
\<close>

datatype daily_data =
    Banded "(date \<times> pyfloat \<times> pyfloat \<times> pyfloat) list"
  | Single "(date \<times> pyfloat) list"

text \<open>
  \<open>any(keyword in metric_type for keyword in ['StepCount', 'Distance', 'Energy'])\<close>
\<close>

definition any_keyword :: "string \<Rightarrow> bool" where
  "any_keyword metric_type =
     list_ex (\<lambda>keyword. str_in keyword metric_type) [''StepCount'', ''Distance'', ''Energy'']"

text \<open>
  The function. \<open>agg\<close> is the pandas reduction of one group, selected by its name
  (\<open>'mean'\<close>, \<open>'min'\<close>, \<open>'max'\<close>, \<open>'sum'\<close>); it is an argument of the model. The figure belongs
  to the presentation and is not part of the result; what is kept of its construction is
  the \<open>IndexError\<close> of \<open>metric_type.split("Identifier")[1]\<close> when the separator does not
  occur. The exceptions, in the order the statements raise them: \<open>KeyError\<close> for
  \<open>df['type']\<close> on the DataFrame built from no rows (it has no columns),
  \<open>AttributeError\<close> for \<open>.dt\<close>, \<open>IndexError\<close> for \<open>date_range[0]\<close> and \<open>date_range[1]\<close>.
\<close>

definition create_visualization ::
  "(string \<Rightarrow> pyfloat list \<Rightarrow> pyfloat) \<Rightarrow> observation list \<Rightarrow> string \<Rightarrow> date list \<Rightarrow>
     exn + daily_data" where
  "create_visualization agg df metric_type date_range =
     (if df = [] then Inl KeyError
      else if \<not> datetimelike (map r_date df) then Inl AttributeError
      else if length date_range < 2 then Inl IndexError
      else
        let filtered_df = filter (in_filter metric_type (date_range ! 0) (date_range ! 1)) df in
        if str_in ''HeartRate'' metric_type then
          Inr (Banded (map (\<lambda>(d, g). (d, agg ''mean'' g, agg ''min'' g, agg ''max'' g))
                         (groupby_date filtered_df)))
        else
          let agg_func = (if any_keyword metric_type then ''sum'' else ''mean'');
              daily = Single (map (\<lambda>(d, g). (d, agg agg_func g)) (groupby_date filtered_df))
          in if str_in ''Identifier'' metric_type then Inr daily else Inl IndexError)"

text \<open>The dates of the rows of a result, in row order.\<close>

fun dates_of :: "daily_data \<Rightarrow> date list" where
  "dates_of (Banded rows) = map fst rows"
| "dates_of (Single rows) = map fst rows"

section \<open>The summary statistics of main\<close>

text \<open>
  The four metrics shown under "Summary Statistics": \<open>daily_data['value'].mean()\<close>,
  \<open>.max()\<close>, \<open>.min()\<close> and \<open>len(daily_data)\<close>. \<open>reduce\<close> is the pandas reduction of a
  column, selected by name. In the heart-rate shape \<open>daily_data['value']\<close> is a frame of
  three columns, its mean is a Series, and formatting a Series with \<open>.1f\<close> raises
  \<open>TypeError\<close>. The result is the four scalars before they are formatted.
\<close>

definition summary_statistics ::
  "(string \<Rightarrow> pyfloat list \<Rightarrow> pyfloat) \<Rightarrow> daily_data \<Rightarrow> exn + (pyfloat \<times> pyfloat \<times> pyfloat \<times> nat)" where
  "summary_statistics reduce daily =
     (case daily of
        Banded rows \<Rightarrow> Inl TypeError
      | Single rows \<Rightarrow>
          Inr (reduce ''mean'' (map snd rows), reduce ''max'' (map snd rows),
               reduce ''min'' (map snd rows), length rows))"

section \<open>Objects and references\<close>

text \<open>
  \<open>create_visualization\<close> again, statement by statement, on a heap of objects: a
  reference is an index into the heap, the caller's DataFrame is read through the
  reference it is passed, and the function returns the references of \<open>fig\<close> and
  \<open>daily_data\<close>. Boolean indexing (\<open>df[mask]\<close>), \<open>groupby(...).agg(...).reset_index()\<close>,
  \<open>go.Figure()\<close> and \<open>px.line\<close> each build a new object; \<open>fig.add_trace\<close> and
  \<open>fig.update_layout\<close> change the figure they are called on, in place.
\<close>

record trace =
  tr_name :: string
  tr_x :: "date list"
  tr_y :: "pyfloat list"
  tr_color :: string

record figure =
  fig_data :: "trace list"
  fig_title :: "string option"
  fig_height :: "nat option"

datatype pyobj = DataFrame "observation list" | DailyData daily_data | Figure figure

type_synonym heap = "pyobj list"

definition deref :: "heap \<Rightarrow> nat \<Rightarrow> pyobj option" where
  "deref h p = (if p < length h then Some (h ! p) else None)"

definition alloc :: "heap \<Rightarrow> pyobj \<Rightarrow> nat \<times> heap" where
  "alloc h obj = (length h, h @ [obj])"

text \<open>\<open>go.Figure()\<close>: a new figure without traces.\<close>

definition go_Figure :: "heap \<Rightarrow> nat \<times> heap" where
  "go_Figure h = alloc h (Figure \<lparr>fig_data = [], fig_title = None, fig_height = None\<rparr>)"

text \<open>\<open>fig.add_trace(tr)\<close> and \<open>fig.update_layout(height=n)\<close>: the object at \<open>fig\<close> is replaced.\<close>

definition add_trace :: "heap \<Rightarrow> nat \<Rightarrow> trace \<Rightarrow> heap" where
  "add_trace h fig tr =
     (case deref h fig of
        Some (Figure f) \<Rightarrow> h[fig := Figure (f\<lparr>fig_data := fig_data f @ [tr]\<rparr>)]
      | _ \<Rightarrow> h)"

definition update_layout :: "heap \<Rightarrow> nat \<Rightarrow> nat \<Rightarrow> heap" where
  "update_layout h fig n =
     (case deref h fig of
        Some (Figure f) \<Rightarrow> h[fig := Figure (f\<lparr>fig_height := Some n\<rparr>)]
      | _ \<Rightarrow> h)"

text \<open>
  \<open>s.split(sep)[1]\<close> for a separator that is not empty: the text between the first and
  the second occurrence of the separator, \<open>IndexError\<close> when it does not occur.
  \<open>str_partition\<close> cuts a string at the first occurrence.
\<close>

fun str_partition :: "string \<Rightarrow> string \<Rightarrow> (string \<times> string) option" where
  "str_partition sep [] = None"
| "str_partition sep (c # cs) =
     (if take (length sep) (c # cs) = sep then Some ([], drop (length sep) (c # cs))
      else map_option (\<lambda>(before, after). (c # before, after)) (str_partition sep cs))"

definition split_item1 :: "string \<Rightarrow> string \<Rightarrow> exn + string" where
  "split_item1 sep s =
     (case str_partition sep s of
        None \<Rightarrow> Inl IndexError
      | Some (before, after) \<Rightarrow>
          Inr (case str_partition sep after of None \<Rightarrow> after | Some (item, rest) \<Rightarrow> item))"

text \<open>
  The function on the heap. \<open>px_line\<close> is \<open>px.line(daily_data, x='date', y='value',
  title=_)\<close>, the figure the library builds from the rows and the title; like \<open>agg\<close> it is
  an argument. A reference that does not hold a frame of observations has no column
  \<open>type\<close> (\<open>KeyError\<close>). The heap that is returned holds what was allocated before an
  exception, too.
\<close>

definition create_visualization_heap ::
  "(string \<Rightarrow> pyfloat list \<Rightarrow> pyfloat) \<Rightarrow> ((date \<times> pyfloat) list \<Rightarrow> string \<Rightarrow> figure) \<Rightarrow>
     heap \<Rightarrow> nat \<Rightarrow> string \<Rightarrow> date list \<Rightarrow> (exn + nat \<times> nat) \<times> heap" where
  "create_visualization_heap agg px_line h df_ref metric_type date_range =
     (case deref h df_ref of
        Some (DataFrame df) \<Rightarrow>
          if df = [] then (Inl KeyError, h)
          else if \<not> datetimelike (map r_date df) then (Inl AttributeError, h)
          else if length date_range < 2 then (Inl IndexError, h)
          else
            let filtered_df = filter (in_filter metric_type (date_range ! 0) (date_range ! 1)) df;
                (filtered_ref, h1) = alloc h (DataFrame filtered_df)
            in
              if str_in ''HeartRate'' metric_type then
                let rows = map (\<lambda>(d, g). (d, agg ''mean'' g, agg ''min'' g, agg ''max'' g))
                             (groupby_date filtered_df);
                    (daily_data, h2) = alloc h1 (DailyData (Banded rows));
                    (fig, h3) = go_Figure h2;
                    h4 = add_trace h3 fig
                           \<lparr>tr_name = ''Average'', tr_x = map fst rows,
                            tr_y = map (\<lambda>(d, mean, mn, mx). mean) rows, tr_color = ''blue''\<rparr>;
                    h5 = add_trace h4 fig
                           \<lparr>tr_name = ''Maximum'', tr_x = map fst rows,
                            tr_y = map (\<lambda>(d, mean, mn, mx). mx) rows, tr_color = ''red''\<rparr>;
                    h6 = add_trace h5 fig
                           \<lparr>tr_name = ''Minimum'', tr_x = map fst rows,
                            tr_y = map (\<lambda>(d, mean, mn, mx). mn) rows, tr_color = ''green''\<rparr>;
                    h7 = update_layout h6 fig 500
                in (Inr (fig, daily_data), h7)
              else
                let agg_func = (if any_keyword metric_type then ''sum'' else ''mean'');
                    rows = map (\<lambda>(d, g). (d, agg agg_func g)) (groupby_date filtered_df);
                    (daily_data, h2) = alloc h1 (DailyData (Single rows))
                in
                  (case split_item1 ''Identifier'' metric_type of
                     Inl e \<Rightarrow> (Inl e, h2)
                   | Inr item \<Rightarrow>
                       let (fig, h3) = alloc h2 (Figure (px_line rows (''Daily '' @ item @ '' Over Time'')));
                           h4 = update_layout h3 fig 500
                       in (Inr (fig, daily_data), h4))
      | _ \<Rightarrow> (Inl KeyError, h))"

text \<open>
  What a call returned: the exception, or the objects that the two returned references
  point to, the figure and the daily data.
\<close>

definition returned :: "(exn + nat \<times> nat) \<times> heap \<Rightarrow> exn + pyobj option \<times> pyobj option" where
  "returned res =
     (case fst res of
        Inl e \<Rightarrow> Inl e
      | Inr (fig, daily_data) \<Rightarrow> Inr (deref (snd res) fig, deref (snd res) daily_data))"

text \<open>A figure of one unnamed trace with a title, for the examples.\<close>

definition one_line :: "(date \<times> pyfloat) list \<Rightarrow> string \<Rightarrow> figure" where
  "one_line rows title =
     \<lparr>fig_data = [\<lparr>tr_name = '''', tr_x = map fst rows, tr_y = map snd rows, tr_color = ''''\<rparr>],
      fig_title = Some title, fig_height = None\<rparr>"

section \<open>Instances of the library functions\<close>

subsection \<open>float\<close>

text \<open>
  Python's \<open>float\<close> on a string whose characters are code points below 256, following
  the grammar of the language reference: surrounding whitespace is stripped (tab, line
  feed, vertical tab, form feed, carriage return and blank, and the two spaces U+0085 and
  U+00A0, which the conversion first turns into blanks); an optional sign; then \<open>inf\<close>,
  \<open>infinity\<close> or \<open>nan\<close> in any case, or a decimal number with an optional exponent,
  whose digits may be grouped by single underscores. \<open>float(None)\<close> raises \<open>TypeError\<close>,
  a string outside the grammar \<open>ValueError\<close>. The decimal value is rounded to the nearest
  double, ties to even, and overflows to an infinity.
\<close>

definition py_isspace :: "char \<Rightarrow> bool" where
  "py_isspace c =
     (c \<in> set [CHR 0x09, CHR 0x0A, CHR 0x0B, CHR 0x0C, CHR 0x0D, CHR 0x20,
               CHR 0x85, CHR 0xA0])"

definition strip :: "string \<Rightarrow> string" where
  "strip s = rev (dropWhile py_isspace (rev (dropWhile py_isspace s)))"

definition digit_of :: "char \<Rightarrow> nat option" where
  "digit_of c = (let n = (of_char c :: nat) in if 48 \<le> n \<and> n \<le> 57 then Some (n - 48) else None)"

definition lower :: "string \<Rightarrow> string" where
  "lower s =
     map (\<lambda>c. let n = (of_char c :: nat) in if 65 \<le> n \<and> n \<le> 90 then char_of (n + 32) else c) s"

text \<open>
  The rest of a digit part after its first digit: the value so far, the number of digits
  so far, the input. Returns the value, the digit count and what follows the digit part.
\<close>

fun digits_tail :: "int \<Rightarrow> nat \<Rightarrow> string \<Rightarrow> int \<times> nat \<times> string" where
  "digits_tail v n [] = (v, n, [])"
| "digits_tail v n [c] =
     (case digit_of c of Some d \<Rightarrow> (10 * v + int d, Suc n, []) | None \<Rightarrow> (v, n, [c]))"
| "digits_tail v n (c # c' # cs) =
     (case digit_of c of
        Some d \<Rightarrow> digits_tail (10 * v + int d) (Suc n) (c' # cs)
      | None \<Rightarrow>
          if c = CHR ''_'' then
            (case digit_of c' of
               Some d \<Rightarrow> digits_tail (10 * v + int d) (Suc n) cs
             | None \<Rightarrow> (v, n, c # c' # cs))
          else (v, n, c # c' # cs))"

definition digitpart :: "string \<Rightarrow> (int \<times> nat \<times> string) option" where
  "digitpart s =
     (case s of
        [] \<Rightarrow> None
      | c # cs \<Rightarrow> (case digit_of c of None \<Rightarrow> None | Some d \<Rightarrow> Some (digits_tail (int d) 1 cs)))"

text \<open>An optional sign: whether it is a minus, and the rest.\<close>

definition opt_sign :: "string \<Rightarrow> bool \<times> string" where
  "opt_sign s =
     (case s of
        [] \<Rightarrow> (False, [])
      | c # cs \<Rightarrow>
          if c = CHR ''-'' then (True, cs) else if c = CHR ''+'' then (False, cs) else (False, s))"

text \<open>The exponent that ends a number; the empty string is the exponent 0.\<close>

definition exponent :: "string \<Rightarrow> int option" where
  "exponent s =
     (case s of
        [] \<Rightarrow> Some 0
      | c # cs \<Rightarrow>
          if c = CHR ''e'' \<or> c = CHR ''E'' then
            (case digitpart (snd (opt_sign cs)) of
               Some (v, n, []) \<Rightarrow> Some (if fst (opt_sign cs) then - v else v)
             | _ \<Rightarrow> None)
          else None)"

definition pow10 :: "int \<Rightarrow> rat" where
  "pow10 k = (if 0 \<le> k then 10 ^ nat k else 1 / 10 ^ nat (- k))"

definition floatnumber :: "string \<Rightarrow> rat option" where
  "floatnumber s =
     (case digitpart s of
        Some (iv, n, rest) \<Rightarrow>
          (case rest of
             [] \<Rightarrow> Some (of_int iv)
           | c # cs \<Rightarrow>
               if c = CHR ''.'' then
                 (case digitpart cs of
                    Some (fv, fn, rest') \<Rightarrow>
                      map_option (\<lambda>e. (of_int iv + of_int fv / 10 ^ fn) * pow10 e) (exponent rest')
                  | None \<Rightarrow> map_option (\<lambda>e. of_int iv * pow10 e) (exponent cs))
               else map_option (\<lambda>e. of_int iv * pow10 e) (exponent rest))
      | None \<Rightarrow>
          (case s of
             [] \<Rightarrow> None
           | c # cs \<Rightarrow>
               if c = CHR ''.'' then
                 (case digitpart cs of
                    Some (fv, fn, rest') \<Rightarrow>
                      map_option (\<lambda>e. (of_int fv / 10 ^ fn) * pow10 e) (exponent rest')
                  | None \<Rightarrow> None)
               else None))"

text \<open>
  Rounding a rational to the nearest double (53 significant bits, ties to even). The
  rounded magnitude reaches \<open>2 ^ 1024\<close> only from the top binade, exponent 1023, on.
\<close>

function bit_length :: "int \<Rightarrow> nat" where
  "bit_length n = (if n \<le> 0 then 0 else Suc (bit_length (n div 2)))"
  by pat_completeness auto
termination
  by (relation "measure nat") auto

definition pow2 :: "int \<Rightarrow> rat" where
  "pow2 k = (if 0 \<le> k then 2 ^ nat k else 1 / 2 ^ nat (- k))"

definition round_half_even :: "rat \<Rightarrow> int" where
  "round_half_even q =
     (let f = \<lfloor>q\<rfloor>; r = q - of_int f
      in if r < 1 / 2 then f else if 1 / 2 < r then f + 1 else if even f then f else f + 1)"

definition round_double :: "rat \<Rightarrow> pyfloat" where
  "round_double q =
     (if q = 0 then Finite 0
      else
        let a = \<bar>q\<bar>;
            k = int (bit_length (fst (quotient_of a))) - int (bit_length (snd (quotient_of a)));
            e = (if pow2 k \<le> a then k else k - 1);
            ep = max e (- 1022);
            m = round_half_even (a / pow2 (ep - 52));
            r = of_int m * pow2 (ep - 52)
        in if 1023 \<le> ep \<and> pow2 1024 \<le> r then (if q < 0 then NegInf else PosInf)
           else Finite (if q < 0 then - r else r))"

definition py_float :: "string option \<Rightarrow> exn + pyfloat" where
  "py_float arg =
     (case arg of
        None \<Rightarrow> Inl TypeError
      | Some s \<Rightarrow>
          let neg = fst (opt_sign (strip s)); body = snd (opt_sign (strip s))
          in if lower body = ''inf'' \<or> lower body = ''infinity'' then
               Inr (if neg then NegInf else PosInf)
             else if lower body = ''nan'' then Inr NaN
             else
               (case floatnumber body of
                  None \<Rightarrow> Inl ValueError
                | Some q \<Rightarrow> Inr (round_double (if neg then - q else q))))"

subsection \<open>strptime\<close>

text \<open>
  \<open>datetime.strptime\<close> with the format \<open>%Y-%m-%d %H:%M:%S %z\<close> on the fixed-width
  rendering \<open>YYYY-MM-DD HH:MM:SS +HHMM\<close> that the export uses: every field is checked
  against the calendar, \<open>None\<close> raises \<open>TypeError\<close>, anything else \<open>ValueError\<close>. The
  library accepts some further spellings (fields that are not zero-padded, an offset with
  a colon); this instance rejects them, and it is used only to run the extractor on
  concrete documents.
\<close>

fun digits_value :: "string \<Rightarrow> nat option" where
  "digits_value [] = Some 0"
| "digits_value (c # cs) =
     (case digit_of c of
        None \<Rightarrow> None
      | Some d \<Rightarrow> map_option (\<lambda>v. d * 10 ^ length cs + v) (digits_value cs))"

definition field :: "nat \<Rightarrow> nat \<Rightarrow> string \<Rightarrow> nat option" where
  "field i n s = digits_value (take n (drop i s))"

definition days_in_month :: "nat \<Rightarrow> nat \<Rightarrow> nat" where
  "days_in_month y m =
     (if m = 2 then (if y mod 4 = 0 \<and> (y mod 100 \<noteq> 0 \<or> y mod 400 = 0) then 29 else 28)
      else if m = 4 \<or> m = 6 \<or> m = 9 \<or> m = 11 then 30 else 31)"

definition fixed_layout :: "string \<Rightarrow> bool" where
  "fixed_layout s =
     (length s = 25 \<and> s ! 4 = CHR ''-'' \<and> s ! 7 = CHR ''-'' \<and> s ! 10 = CHR '' '' \<and>
      s ! 13 = CHR '':'' \<and> s ! 16 = CHR '':'' \<and> s ! 19 = CHR '' '' \<and>
      (s ! 20 = CHR ''+'' \<or> s ! 20 = CHR ''-''))"

definition py_strptime :: "string option \<Rightarrow> exn + datetime" where
  "py_strptime arg =
     (case arg of
        None \<Rightarrow> Inl TypeError
      | Some s \<Rightarrow>
          if fixed_layout s then
            (case (field 0 4 s, field 5 2 s, field 8 2 s, field 11 2 s, field 14 2 s,
                   field 17 2 s, field 21 2 s, field 23 2 s) of
               (Some y, Some mo, Some d, Some h, Some mi, Some se, Some oh, Some om) \<Rightarrow>
                 if 1 \<le> y \<and> 1 \<le> mo \<and> mo \<le> 12 \<and> 1 \<le> d \<and> d \<le> days_in_month y mo \<and>
                    h < 24 \<and> mi < 60 \<and> se < 60 \<and> oh < 24 \<and> om < 60
                 then Inr \<lparr>year = y, month = mo, day = d, hour = h, minute = mi, second = se,
                           utcoffset = (if s ! 20 = CHR ''-'' then - 1 else 1) *
                                       (int oh * 3600 + int om * 60)\<rparr>
                 else Inl ValueError
             | _ \<Rightarrow> Inl ValueError)
          else Inl ValueError)"

subsection \<open>pandas reductions\<close>

text \<open>
  The reductions \<open>mean\<close>, \<open>min\<close>, \<open>max\<close> and \<open>sum\<close> of pandas, by name, on the values of
  a group or of a column. They skip NaN; the sum of no value is 0, the other three
  reductions of no value are NaN. On finite values the arithmetic is exact here: the
  rounding of the machine additions is not modelled. A name outside the four, which the
  program never passes, gives NaN.
\<close>

fun fadd :: "pyfloat \<Rightarrow> pyfloat \<Rightarrow> pyfloat" where
  "fadd (Finite a) (Finite b) = Finite (a + b)"
| "fadd NaN y = NaN"
| "fadd x NaN = NaN"
| "fadd PosInf NegInf = NaN"
| "fadd NegInf PosInf = NaN"
| "fadd PosInf y = PosInf"
| "fadd x PosInf = PosInf"
| "fadd NegInf y = NegInf"
| "fadd x NegInf = NegInf"

fun fle :: "pyfloat \<Rightarrow> pyfloat \<Rightarrow> bool" where
  "fle (Finite a) (Finite b) = (a \<le> b)"
| "fle NaN y = False"
| "fle x NaN = False"
| "fle NegInf y = True"
| "fle x PosInf = True"
| "fle x y = False"

definition fmin :: "pyfloat \<Rightarrow> pyfloat \<Rightarrow> pyfloat" where
  "fmin x y = (if fle x y then x else y)"

definition fmax :: "pyfloat \<Rightarrow> pyfloat \<Rightarrow> pyfloat" where
  "fmax x y = (if fle x y then y else x)"

definition fsum :: "pyfloat list \<Rightarrow> pyfloat" where
  "fsum xs = foldl fadd (Finite 0) xs"

definition pd_reduce :: "string \<Rightarrow> pyfloat list \<Rightarrow> pyfloat" where
  "pd_reduce name vs =
     (case filter (\<lambda>v. v \<noteq> NaN) vs of
        [] \<Rightarrow> if name = ''sum'' then Finite 0 else NaN
      | x # xs \<Rightarrow>
          if name = ''sum'' then fsum (x # xs)
          else if name = ''mean'' then
            (case fsum (x # xs) of Finite t \<Rightarrow> Finite (t / of_nat (length (x # xs))) | v \<Rightarrow> v)
          else if name = ''min'' then foldl fmin x xs
          else if name = ''max'' then foldl fmax x xs
          else NaN)"

section \<open>The observations produced for one element\<close>

text \<open>
  The rows one element adds to \<open>records\<close>: the one the loop body appends, or none.
\<close>

definition produced ::
  "(string option \<Rightarrow> exn + pyfloat) \<Rightarrow> (string option \<Rightarrow> exn + datetime) \<Rightarrow>
     xml \<Rightarrow> observation list" where
  "produced float strptime record =
     (case loop_body float strptime record of Inr (Some row) \<Rightarrow> [row] | _ \<Rightarrow> [])"

section \<open>Example data\<close>

text \<open>An observation at noon UTC of a date, for the examples below.\<close>

definition sample :: "string \<Rightarrow> string \<Rightarrow> rat \<Rightarrow> date \<Rightarrow> observation" where
  "sample cat t v d =
     \<lparr>r_type = t, r_value = Finite v, r_unit = None,
      r_date = \<lparr>year = fst d, month = fst (snd d), day = snd (snd d),
                hour = 12, minute = 0, second = 0, utcoffset = 0\<rparr>,
      r_category = cat\<rparr>"

definition example_frame :: "observation list" where
  "example_frame =
     [sample ''Vital Signs'' ''HKQuantityTypeIdentifierHeartRate'' 65 (2024, 2, 3),
      sample ''Vital Signs'' ''HKQuantityTypeIdentifierHeartRate'' 60 (2024, 2, 1),
      sample ''Activity'' ''HKQuantityTypeIdentifierStepCount'' 1000 (2024, 2, 1),
      sample ''Vital Signs'' ''HKQuantityTypeIdentifierHeartRate'' 70 (2024, 2, 1),
      sample ''Body Measurements'' ''HKQuantityTypeIdentifierBodyMass'' 70 (2024, 2, 2),
      sample ''Vital Signs'' ''HKQuantityTypeIdentifierHeartRate'' 80 (2024, 2, 1),
      sample ''Activity'' ''HKQuantityTypeIdentifierStepCount'' 2000 (2024, 2, 1),
      sample ''Body Measurements'' ''HKQuantityTypeIdentifierBodyMass'' 71 (2024, 2, 2)]"

text \<open>Elements of an export: well-formed, malformed in each way, and not recognised.\<close>

definition record_ok :: xml where
  "record_ok =
     Element ''Record''
       [(''type'', ''HKQuantityTypeIdentifierHeartRate''), (''value'', ''72''),
        (''unit'', ''count/min''), (''startDate'', ''2024-02-01 08:15:00 +0100'')] []"

definition record_abc :: xml where
  "record_abc =
     Element ''Record''
       [(''type'', ''HKQuantityTypeIdentifierHeartRate''), (''value'', ''abc''),
        (''unit'', ''count/min''), (''startDate'', ''2024-02-01 08:20:00 +0100'')] []"

definition record_no_value :: xml where
  "record_no_value =
     Element ''Record''
       [(''type'', ''HKQuantityTypeIdentifierBodyMass''),
        (''unit'', ''kg''), (''startDate'', ''2024-02-01 08:25:00 +0100'')] []"

definition record_bad_date :: xml where
  "record_bad_date =
     Element ''Record''
       [(''type'', ''HKQuantityTypeIdentifierStepCount''), (''value'', ''12''),
        (''unit'', ''count''), (''startDate'', ''yesterday'')] []"

definition record_nan :: xml where
  "record_nan =
     Element ''Record''
       [(''type'', ''HKQuantityTypeIdentifierHeartRate''), (''value'', ''nan''),
        (''unit'', ''count/min''), (''startDate'', ''2024-02-01 08:30:00 +0100'')] []"

definition record_unknown :: xml where
  "record_unknown =
     Element ''Record''
       [(''type'', ''HKQuantityTypeIdentifierAppleExerciseTime''), (''value'', ''3''),
        (''unit'', ''min''), (''startDate'', ''2024-02-01 08:35:00 +0100'')] []"

definition example_export :: xml where
  "example_export =
     Element ''HealthData'' [(''locale'', ''en_US'')]
       [Element ''ExportDate'' [(''value'', ''2024-02-04 10:00:00 +0100'')] [],
        record_ok, record_abc, record_unknown, record_no_value, record_bad_date]"

text \<open>
  An upload given as the outcome of parsing it: the instance of \<open>ET_parse\<close> used to run
  the extractor on the examples.
\<close>

definition parse_outcome :: "exn + xml \<Rightarrow> exn + xml" where
  "parse_outcome uploaded_file = uploaded_file"

text \<open>A frame whose identifier holds both "HeartRate" and a cumulative keyword.\<close>

definition overlap_frame :: "observation list" where
  "overlap_frame =
     [sample ''Vital Signs'' ''HKQuantityTypeIdentifierHeartRateEnergy'' 1000 (2024, 2, 1),
      sample ''Vital Signs'' ''HKQuantityTypeIdentifierHeartRateEnergy'' 2000 (2024, 2, 1)]"

text \<open>The rows the extractor builds from \<open>record_ok\<close> and from \<open>record_nan\<close>.\<close>

definition row_ok :: observation where
  "row_ok =
     \<lparr>r_type = ''HKQuantityTypeIdentifierHeartRate'', r_value = Finite 72,
      r_unit = Some ''count/min'',
      r_date = \<lparr>year = 2024, month = 2, day = 1, hour = 8, minute = 15, second = 0,
                utcoffset = 3600\<rparr>,
      r_category = ''Vital Signs''\<rparr>"

definition row_nan :: observation where
  "row_nan =
     \<lparr>r_type = ''HKQuantityTypeIdentifierHeartRate'', r_value = NaN,
      r_unit = Some ''count/min'',
      r_date = \<lparr>year = 2024, month = 2, day = 1, hour = 8, minute = 30, second = 0,
                utcoffset = 3600\<rparr>,
      r_category = ''Vital Signs''\<rparr>"

section \<open>Facts about the catalog\<close>

lemma next_category_member:
  assumes "next_category t = Inr cat"
  shows "\<exists>ms. (cat, ms) \<in> set HEALTHKIT_METRICS \<and> t \<in> set ms"
proof -
  obtain ms rest where f: "filter (\<lambda>(cat, metrics). t \<in> set metrics) HEALTHKIT_METRICS = (cat, ms) # rest"
    using assms by (auto simp: next_category_def split: list.splits)
  have "(cat, ms) \<in> set (filter (\<lambda>(cat, metrics). t \<in> set metrics) HEALTHKIT_METRICS)"
    by (simp only: f list.set_intros)
  then show ?thesis by auto
qed

lemma next_category_defined:
  assumes "t \<in> set all_metrics"
  shows "\<exists>cat. next_category t = Inr cat"
proof -
  from assms obtain cat ms where m: "(cat, ms) \<in> set HEALTHKIT_METRICS" "t \<in> set ms"
    by (auto simp: all_metrics_def)
  then have "(cat, ms) \<in> set (filter (\<lambda>(cat, metrics). t \<in> set metrics) HEALTHKIT_METRICS)"
    by simp
  then have "filter (\<lambda>(cat, metrics). t \<in> set metrics) HEALTHKIT_METRICS \<noteq> []"
    by (metis empty_iff list.set(1))
  then show ?thesis
    by (auto simp: next_category_def split: list.splits)
qed

lemma catalog_table:
  "list_all (\<lambda>(cat, ms). list_all (\<lambda>t. next_category t = Inr cat) ms) HEALTHKIT_METRICS"
  by code_simp

lemma category_of_metric:
  assumes "(cat, ms) \<in> set HEALTHKIT_METRICS" "t \<in> set ms"
  shows "next_category t = Inr cat"
  using catalog_table assms unfolding list_all_iff by blast

lemma category_unique:
  assumes "(cat, ms) \<in> set HEALTHKIT_METRICS" "t \<in> set ms"
    and "(cat', ms') \<in> set HEALTHKIT_METRICS" "t \<in> set ms'"
  shows "cat = cat'"
  using category_of_metric [OF assms(1,2)] category_of_metric [OF assms(3,4)] by simp

lemma member_all_metrics:
  "(cat, ms) \<in> set HEALTHKIT_METRICS \<Longrightarrow> t \<in> set ms \<Longrightarrow> t \<in> set all_metrics"
  by (force simp: all_metrics_def)

section \<open>Facts about the extractor\<close>

lemma try_body_fields:
  assumes "try_body float strptime e t = Inr r"
  shows "r_type r = t \<and> float (get e ''value'') = Inr (r_value r) \<and>
         strptime (get e ''startDate'') = Inr (r_date r) \<and>
         next_category t = Inr (r_category r) \<and> r_unit r = get e ''unit''"
  using assms by (auto simp: try_body_def split: sum.splits)

lemma loop_body_fields:
  assumes "loop_body float strptime e = Inr (Some r)"
  shows "get e ''type'' = Some (r_type r) \<and> r_type r \<in> set all_metrics \<and>
         float (get e ''value'') = Inr (r_value r) \<and>
         strptime (get e ''startDate'') = Inr (r_date r) \<and>
         next_category (r_type r) = Inr (r_category r) \<and> r_unit r = get e ''unit''"
proof -
  from assms obtain t where t: "get e ''type'' = Some t" "t \<in> set all_metrics"
    and b: "try_body float strptime e t = Inr r"
    by (auto simp: loop_body_def split: option.splits if_splits sum.splits)
  from try_body_fields [OF b] t show ?thesis by simp
qed

lemma loop_body_unrecognised:
  assumes "\<forall>t. get e ''type'' = Some t \<longrightarrow> t \<notin> set all_metrics"
  shows "loop_body float strptime e = Inr None"
  using assms by (auto simp: loop_body_def split: option.splits)

lemma for_records_produced:
  assumes "for_records float strptime rs acc = Inr out"
  shows "out = acc @ concat (map (produced float strptime) rs)"
  using assms
proof (induction rs arbitrary: acc)
  case Nil
  then show ?case by simp
next
  case (Cons e rs)
  show ?case
  proof (cases "loop_body float strptime e")
    case (Inl x)
    with Cons.prems show ?thesis by simp
  next
    case (Inr res)
    show ?thesis
    proof (cases res)
      case None
      with Inr Cons.prems have "for_records float strptime rs acc = Inr out" by simp
      from Cons.IH [OF this] Inr None show ?thesis by (simp add: produced_def)
    next
      case (Some row)
      with Inr Cons.prems have "for_records float strptime rs (acc @ [row]) = Inr out" by simp
      from Cons.IH [OF this] Inr Some show ?thesis by (simp add: produced_def)
    qed
  qed
qed

lemma length_produced: "length (produced float strptime e) \<le> 1"
  by (simp add: produced_def split: sum.splits option.splits)

lemma length_concat_produced:
  "length (concat (map (produced float strptime) rs)) \<le> length rs"
proof (induction rs)
  case Nil
  then show ?case by simp
next
  case (Cons e rs)
  from length_produced [of float strptime e] Cons show ?case by simp
qed

lemma for_records_skip:
  assumes "loop_body float strptime e = Inr None"
  shows "for_records float strptime (pre @ e # post) acc = for_records float strptime (pre @ post) acc"
proof (induction pre arbitrary: acc)
  case Nil
  from assms show ?case by simp
next
  case (Cons x pre)
  then show ?case by (simp split: sum.splits option.splits)
qed

lemma loop_body_total:
  assumes "\<forall>s e. float s = Inl e \<longrightarrow> e = ValueError \<or> e = TypeError"
    and "\<forall>s e. strptime s = Inl e \<longrightarrow> e = ValueError \<or> e = TypeError"
  shows "\<exists>res. loop_body float strptime e = Inr res"
proof (cases "get e ''type''")
  case None
  then show ?thesis by (simp add: loop_body_def)
next
  case (Some t)
  show ?thesis
  proof (cases "t \<in> set all_metrics")
    case False
    with Some show ?thesis by (simp add: loop_body_def)
  next
    case True
    then obtain cat where c: "next_category t = Inr cat"
      using next_category_defined by blast
    have "try_body float strptime e t = Inl ValueError \<or> try_body float strptime e t = Inl TypeError \<or>
          (\<exists>r. try_body float strptime e t = Inr r)"
      using assms c by (auto simp: try_body_def split: sum.splits)
    with Some True show ?thesis by (auto simp: loop_body_def)
  qed
qed

lemma for_records_total:
  assumes "\<forall>s e. float s = Inl e \<longrightarrow> e = ValueError \<or> e = TypeError"
    and "\<forall>s e. strptime s = Inl e \<longrightarrow> e = ValueError \<or> e = TypeError"
  shows "\<exists>out. for_records float strptime rs acc = Inr out"
proof (induction rs arbitrary: acc)
  case Nil
  then show ?case by simp
next
  case (Cons e rs)
  from loop_body_total [OF assms] obtain res where "loop_body float strptime e = Inr res"
    by blast
  with Cons show ?case by (cases res) simp_all
qed

lemma py_float_raises: "py_float s = Inl e \<Longrightarrow> e = ValueError \<or> e = TypeError"
  by (auto simp: py_float_def Let_def split: option.splits if_splits)

lemma py_strptime_raises: "py_strptime s = Inl e \<Longrightarrow> e = ValueError \<or> e = TypeError"
  by (auto simp: py_strptime_def split: option.splits if_splits prod.splits)

section \<open>Facts about the aggregator\<close>


lemma map_fst_groupby_date:
  "map fst (groupby_date fdf) = sort (remdups (map (\<lambda>r. dt_date (r_date r)) fdf))"
  by (simp add: groupby_date_def comp_def)

lemma strict_sorted_groupby_date: "sorted_wrt (<) (map fst (groupby_date fdf))"
  by (simp add: map_fst_groupby_date strict_sorted_iff)

lemma set_fst_groupby_date:
  "set (map fst (groupby_date fdf)) = (\<lambda>r. dt_date (r_date r)) ` set fdf"
  by (simp add: map_fst_groupby_date)



lemma dates_of_Banded_map:
  "dates_of (Banded (map (\<lambda>(d, g). (d, f d g)) groups)) = map fst groups"
  by (induction groups) auto

lemma dates_of_Single_map:
  "dates_of (Single (map (\<lambda>(d, g). (d, f d g)) groups)) = map fst groups"
  by (induction groups) auto

lemma create_visualization_Inr:
  assumes "create_visualization agg df metric_type [start_date, end_date] = Inr daily"
  shows "daily =
           (if str_in ''HeartRate'' metric_type then
              Banded (map (\<lambda>(d, g). (d, agg ''mean'' g, agg ''min'' g, agg ''max'' g))
                        (groupby_date (filter (in_filter metric_type start_date end_date) df)))
            else
              Single (map (\<lambda>(d, g). (d, agg (if any_keyword metric_type then ''sum'' else ''mean'') g))
                        (groupby_date (filter (in_filter metric_type start_date end_date) df))))"
  using assms by (simp add: create_visualization_def Let_def split: if_splits)

lemma create_visualization_returns:
  assumes "df \<noteq> []" "datetimelike (map r_date df)"
    and "str_in ''HeartRate'' metric_type \<or> str_in ''Identifier'' metric_type"
  shows "\<exists>daily. create_visualization agg df metric_type [start_date, end_date] = Inr daily"
  using assms by (auto simp: create_visualization_def Let_def)

lemma create_visualization_dates:
  assumes "create_visualization agg df metric_type [start_date, end_date] = Inr daily"
  shows "dates_of daily =
           map fst (groupby_date (filter (in_filter metric_type start_date end_date) df))"
proof (cases "str_in ''HeartRate'' metric_type")
  case True
  with create_visualization_Inr [OF assms] show ?thesis
    using dates_of_Banded_map [of "\<lambda>d g. (agg ''mean'' g, agg ''min'' g, agg ''max'' g)"]
    by simp
next
  case False
  with create_visualization_Inr [OF assms] show ?thesis
    using dates_of_Single_map [of "\<lambda>d g. agg (if any_keyword metric_type then ''sum'' else ''mean'') g"]
    by simp
qed

lemma filter_in_filter_empty:
  assumes "end_date < start_date"
  shows "filter (in_filter metric_type start_date end_date) df = []"
proof -
  have "\<not> in_filter metric_type start_date end_date r" for r
    using assms by (auto simp: in_filter_def)
  then show ?thesis by (simp add: filter_empty_conv)
qed

section \<open>Facts about the pandas reductions on finite values\<close>

lemma dropna_Finite: "filter (\<lambda>v. v \<noteq> NaN) (map Finite qs) = map Finite qs"
  by (induction qs) auto

lemma foldl_fadd_Finite: "foldl fadd (Finite a) (map Finite qs) = Finite (a + sum_list qs)"
  by (induction qs arbitrary: a) (auto simp: algebra_simps)

lemma foldl_fmin_Finite: "foldl fmin (Finite a) (map Finite qs) = Finite (fold min qs a)"
  by (induction qs arbitrary: a) (auto simp: fmin_def min_def)

lemma foldl_fmax_Finite: "foldl fmax (Finite a) (map Finite qs) = Finite (fold max qs a)"
  by (induction qs arbitrary: a) (auto simp: fmax_def max_def)

lemma pd_reduce_finite:
  assumes "qs \<noteq> []"
  shows "pd_reduce ''mean'' (map Finite qs) = Finite (sum_list qs / of_nat (length qs))"
    and "pd_reduce ''sum'' (map Finite qs) = Finite (sum_list qs)"
    and "pd_reduce ''min'' (map Finite qs) = Finite (Min (set qs))"
    and "pd_reduce ''max'' (map Finite qs) = Finite (Max (set qs))"
proof -
  from assms obtain q rest where qs: "qs = q # rest" by (cases qs) auto
  have d: "filter (\<lambda>v. v \<noteq> NaN) (map Finite qs) = Finite q # map Finite rest"
    using dropna_Finite [of qs] by (simp add: qs)
  have s: "fsum (Finite q # map Finite rest) = Finite (sum_list qs)"
    using foldl_fadd_Finite [of 0 qs] by (simp add: fsum_def qs)
  show "pd_reduce ''mean'' (map Finite qs) = Finite (sum_list qs / of_nat (length qs))"
    unfolding pd_reduce_def d using s by (simp add: qs)
  show "pd_reduce ''sum'' (map Finite qs) = Finite (sum_list qs)"
    unfolding pd_reduce_def d using s by simp
  show "pd_reduce ''min'' (map Finite qs) = Finite (Min (set qs))"
    unfolding pd_reduce_def d by (simp add: foldl_fmin_Finite qs Min.set_eq_fold [symmetric])
  show "pd_reduce ''max'' (map Finite qs) = Finite (Max (set qs))"
    unfolding pd_reduce_def d by (simp add: foldl_fmax_Finite qs Max.set_eq_fold [symmetric])
qed

section \<open>Facts about calls through the heap\<close>

lemma str_partition_None:
  assumes "sep \<noteq> []"
  shows "str_partition sep s = None \<longleftrightarrow> \<not> str_in sep s"
  using assms by (induction s) auto

lemma split_item1_IndexError:
  "(\<exists>item. split_item1 ''Identifier'' s = Inr item) \<longleftrightarrow> str_in ''Identifier'' s"
proof -
  have "str_partition ''Identifier'' s = None \<longleftrightarrow> \<not> str_in ''Identifier'' s"
    by (rule str_partition_None) simp
  then show ?thesis
    by (auto simp: split_item1_def split: option.splits)
qed

lemma split_item1_cases:
  "split_item1 sep s = Inl IndexError \<or> (\<exists>item. split_item1 sep s = Inr item)"
  by (auto simp: split_item1_def split: option.splits)

lemma deref_alloc_old: "q < length h \<Longrightarrow> deref (snd (alloc h obj)) q = deref h q"
  by (simp add: deref_def alloc_def nth_append)

lemma deref_alloc_new: "deref (snd (alloc h obj)) (fst (alloc h obj)) = Some obj"
  by (simp add: deref_def alloc_def)

lemma length_alloc: "length (snd (alloc h obj)) = Suc (length h)"
  by (simp add: alloc_def)

lemma length_add_trace [simp]: "length (add_trace h fig tr) = length h"
  by (simp add: add_trace_def split: option.splits pyobj.splits)

lemma length_update_layout [simp]: "length (update_layout h fig n) = length h"
  by (simp add: update_layout_def split: option.splits pyobj.splits)

lemma deref_add_trace_other: "q \<noteq> fig \<Longrightarrow> deref (add_trace h fig tr) q = deref h q"
  by (simp add: add_trace_def deref_def split: option.splits pyobj.splits)

lemma deref_update_layout_other: "q \<noteq> fig \<Longrightarrow> deref (update_layout h fig n) q = deref h q"
  by (simp add: update_layout_def deref_def split: option.splits pyobj.splits)

lemma deref_add_trace_same:
  "deref h fig = Some (Figure f) \<Longrightarrow>
     deref (add_trace h fig tr) fig = Some (Figure (f\<lparr>fig_data := fig_data f @ [tr]\<rparr>))"
  by (simp add: add_trace_def deref_def split: if_splits)

lemma deref_update_layout_same:
  "deref h fig = Some (Figure f) \<Longrightarrow>
     deref (update_layout h fig n) fig = Some (Figure (f\<lparr>fig_height := Some n\<rparr>))"
  by (simp add: update_layout_def deref_def split: if_splits)

text \<open>The heart-rate branch, from the heap after the allocation of \<open>filtered_df\<close>.\<close>

lemma heart_rate_branch:
  fixes h1 :: heap and rows :: "(date \<times> pyfloat \<times> pyfloat \<times> pyfloat) list"
    and t1 t2 t3 :: trace and n :: nat
  defines "daily \<equiv> length h1" and "fig \<equiv> Suc (length h1)"
  defines "h3 \<equiv> h1 @ [DailyData (Banded rows),
                       Figure \<lparr>fig_data = [], fig_title = None, fig_height = None\<rparr>]"
  defines "h7 \<equiv> update_layout (add_trace (add_trace (add_trace h3 fig t1) fig t2) fig t3) fig n"
  shows "deref h7 daily = Some (DailyData (Banded rows))"
    and "deref h7 fig =
           Some (Figure \<lparr>fig_data = [t1, t2, t3], fig_title = None, fig_height = Some n\<rparr>)"
    and "q < length h1 \<Longrightarrow> deref h7 q = deref h1 q"
proof -
  have f0: "deref h3 fig = Some (Figure \<lparr>fig_data = [], fig_title = None, fig_height = None\<rparr>)"
    by (simp add: h3_def fig_def deref_def nth_append)
  have d0: "deref h3 daily = Some (DailyData (Banded rows))"
    by (simp add: h3_def daily_def deref_def nth_append)
  have ne: "daily \<noteq> fig" by (simp add: daily_def fig_def)
  show "deref h7 daily = Some (DailyData (Banded rows))"
    unfolding h7_def using ne d0
    by (simp add: deref_update_layout_other deref_add_trace_other)
  from deref_add_trace_same [OF f0, of t1]
  have f1: "deref (add_trace h3 fig t1) fig =
      Some (Figure \<lparr>fig_data = [t1], fig_title = None, fig_height = None\<rparr>)"
    by simp
  from deref_add_trace_same [OF f1, of t2]
  have f2: "deref (add_trace (add_trace h3 fig t1) fig t2) fig =
      Some (Figure \<lparr>fig_data = [t1, t2], fig_title = None, fig_height = None\<rparr>)"
    by simp
  from deref_add_trace_same [OF f2, of t3]
  have f3: "deref (add_trace (add_trace (add_trace h3 fig t1) fig t2) fig t3) fig =
      Some (Figure \<lparr>fig_data = [t1, t2, t3], fig_title = None, fig_height = None\<rparr>)"
    by simp
  from deref_update_layout_same [OF f3, of n]
  show "deref h7 fig =
           Some (Figure \<lparr>fig_data = [t1, t2, t3], fig_title = None, fig_height = Some n\<rparr>)"
    unfolding h7_def by simp
  show "deref h7 q = deref h1 q" if "q < length h1"
  proof -
    from that have "q \<noteq> fig" by (simp add: fig_def)
    moreover from that have "deref h3 q = deref h1 q"
      by (simp add: h3_def deref_def nth_append)
    ultimately show ?thesis
      unfolding h7_def by (simp add: deref_update_layout_other deref_add_trace_other)
  qed
qed

text \<open>The other branch, from the heap after the allocation of \<open>filtered_df\<close>.\<close>

lemma line_branch:
  fixes h1 :: heap and rows :: "(date \<times> pyfloat) list"
    and f :: figure and n :: nat
  defines "daily \<equiv> length h1" and "fig \<equiv> Suc (length h1)"
  defines "h4 \<equiv> update_layout (h1 @ [DailyData (Single rows), Figure f]) fig n"
  shows "deref h4 daily = Some (DailyData (Single rows))"
    and "deref h4 fig = Some (Figure (f\<lparr>fig_height := Some n\<rparr>))"
    and "q < length h1 \<Longrightarrow> deref h4 q = deref h1 q"
proof -
  let ?h3 = "h1 @ [DailyData (Single rows), Figure f]"
  have f0: "deref ?h3 fig = Some (Figure f)"
    by (simp add: fig_def deref_def nth_append)
  have ne: "daily \<noteq> fig" by (simp add: daily_def fig_def)
  show "deref h4 daily = Some (DailyData (Single rows))"
    unfolding h4_def using ne
    by (simp add: deref_update_layout_other) (simp add: daily_def deref_def nth_append)
  from deref_update_layout_same [OF f0, of n]
  show "deref h4 fig = Some (Figure (f\<lparr>fig_height := Some n\<rparr>))"
    unfolding h4_def by simp
  show "deref h4 q = deref h1 q" if "q < length h1"
  proof -
    from that have "q \<noteq> fig" by (simp add: fig_def)
    then show ?thesis
      unfolding h4_def using that
      by (simp add: deref_update_layout_other) (simp add: deref_def nth_append)
  qed
qed

lemma heap_early_exit:
  assumes "deref h p = Some (DataFrame df)"
    and "df = [] \<or> \<not> datetimelike (map r_date df) \<or> length dr < 2"
  shows "create_visualization_heap agg px_line h p m dr =
           (Inl (if df = [] then KeyError
                 else if \<not> datetimelike (map r_date df) then AttributeError
                 else IndexError), h)"
  using assms by (auto simp: create_visualization_heap_def)

lemma heap_heart_rate:
  fixes agg :: "string \<Rightarrow> pyfloat list \<Rightarrow> pyfloat"
  assumes "deref h p = Some (DataFrame df)"
    and "df \<noteq> []" "datetimelike (map r_date df)" "\<not> length dr < 2"
    and "str_in ''HeartRate'' m"
  defines "h1 \<equiv> h @ [DataFrame (filter (in_filter m (dr ! 0) (dr ! 1)) df)]"
  defines "rows \<equiv> map (\<lambda>(d, g). (d, agg ''mean'' g, agg ''min'' g, agg ''max'' g))
                     (groupby_date (filter (in_filter m (dr ! 0) (dr ! 1)) df))"
  shows "create_visualization_heap agg px_line h p m dr =
           (Inr (Suc (length h1), length h1),
            update_layout
              (add_trace
                (add_trace
                  (add_trace
                    (h1 @ [DailyData (Banded rows),
                           Figure \<lparr>fig_data = [], fig_title = None, fig_height = None\<rparr>])
                    (Suc (length h1))
                    \<lparr>tr_name = ''Average'', tr_x = map fst rows,
                     tr_y = map (\<lambda>(d, mean, mn, mx). mean) rows, tr_color = ''blue''\<rparr>)
                  (Suc (length h1))
                  \<lparr>tr_name = ''Maximum'', tr_x = map fst rows,
                   tr_y = map (\<lambda>(d, mean, mn, mx). mx) rows, tr_color = ''red''\<rparr>)
                (Suc (length h1))
                \<lparr>tr_name = ''Minimum'', tr_x = map fst rows,
                 tr_y = map (\<lambda>(d, mean, mn, mx). mn) rows, tr_color = ''green''\<rparr>)
              (Suc (length h1)) 500)"
  using assms(1-5)
  by (simp add: create_visualization_heap_def alloc_def go_Figure_def Let_def h1_def rows_def)

lemma heap_line:
  fixes agg :: "string \<Rightarrow> pyfloat list \<Rightarrow> pyfloat"
  assumes "deref h p = Some (DataFrame df)"
    and "df \<noteq> []" "datetimelike (map r_date df)" "\<not> length dr < 2"
    and "\<not> str_in ''HeartRate'' m"
  defines "h1 \<equiv> h @ [DataFrame (filter (in_filter m (dr ! 0) (dr ! 1)) df)]"
  defines "rows \<equiv> map (\<lambda>(d, g). (d, agg (if any_keyword m then ''sum'' else ''mean'') g))
                     (groupby_date (filter (in_filter m (dr ! 0) (dr ! 1)) df))"
  shows "create_visualization_heap agg px_line h p m dr =
           (case split_item1 ''Identifier'' m of
              Inl e \<Rightarrow> (Inl e, h1 @ [DailyData (Single rows)])
            | Inr item \<Rightarrow>
                (Inr (Suc (length h1), length h1),
                 update_layout
                   (h1 @ [DailyData (Single rows),
                          Figure (px_line rows (''Daily '' @ item @ '' Over Time''))])
                   (Suc (length h1)) 500))"
  using assms(1-5)
  by (simp add: create_visualization_heap_def alloc_def Let_def h1_def rows_def
           split: sum.splits)

text \<open>What a call returns depends on the contents of the frame and on the arguments only.\<close>

lemma returned_depends_on_frame:
  assumes "deref h p = Some (DataFrame df)" and "deref h' p' = Some (DataFrame df)"
  shows "returned (create_visualization_heap agg px_line h p m dr) =
         returned (create_visualization_heap agg px_line h' p' m dr)"
proof (cases "df = [] \<or> \<not> datetimelike (map r_date df) \<or> length dr < 2")
  case True
  show ?thesis
    by (simp only: heap_early_exit [OF assms(1) True] heap_early_exit [OF assms(2) True]
          returned_def fst_conv sum.case)
next
  case False
  then have ok: "df \<noteq> []" "datetimelike (map r_date df)" "\<not> length dr < 2"
    by simp_all
  show ?thesis
  proof (cases "str_in ''HeartRate'' m")
    case True
    show ?thesis
      by (simp only: heap_heart_rate [OF assms(1) ok True] heap_heart_rate [OF assms(2) ok True]
            returned_def fst_conv snd_conv sum.case prod.case heart_rate_branch(1,2))
  next
    case False
    show ?thesis
    proof (cases "split_item1 ''Identifier'' m")
      case (Inl e)
      show ?thesis
        by (simp only: heap_line [OF assms(1) ok False] heap_line [OF assms(2) ok False] Inl
              returned_def fst_conv sum.case)
    next
      case (Inr item)
      show ?thesis
        by (simp only: heap_line [OF assms(1) ok False] heap_line [OF assms(2) ok False] Inr
              returned_def fst_conv snd_conv sum.case prod.case line_branch(1,2))
    qed
  qed
qed

text \<open>A call changes no object that existed before it.\<close>

lemma heap_frame:
  assumes "deref h p = Some (DataFrame df)" and "q < length h"
  shows "deref (snd (create_visualization_heap agg px_line h p m dr)) q = deref h q"
proof (cases "df = [] \<or> \<not> datetimelike (map r_date df) \<or> length dr < 2")
  case True
  show ?thesis
    by (simp only: heap_early_exit [OF assms(1) True] snd_conv)
next
  case False
  then have ok: "df \<noteq> []" "datetimelike (map r_date df)" "\<not> length dr < 2"
    by simp_all
  let ?h1 = "h @ [DataFrame (filter (in_filter m (dr ! 0) (dr ! 1)) df)]"
  have q1: "q < length ?h1" using assms(2) by simp
  have old: "deref ?h1 q = deref h q"
    using assms(2) by (simp add: deref_def nth_append)
  show ?thesis
  proof (cases "str_in ''HeartRate'' m")
    case True
    show ?thesis
      by (simp only: heap_heart_rate [OF assms(1) ok True] snd_conv
            heart_rate_branch(3) [OF q1] old)
  next
    case False
    show ?thesis
    proof (cases "split_item1 ''Identifier'' m")
      case (Inl e)
      have "deref (?h1 @ [DailyData (Single rows)]) q = deref h q" for rows
        using assms(2) by (simp add: deref_def nth_append)
      then show ?thesis
        by (simp only: heap_line [OF assms(1) ok False] Inl snd_conv sum.case)
    next
      case (Inr item)
      show ?thesis
        by (simp only: heap_line [OF assms(1) ok False] Inr snd_conv sum.case
              line_branch(3) [OF q1] old)
    qed
  qed
qed

text \<open>The daily data a call returns is the result of \<open>create_visualization\<close>.\<close>

lemma heap_daily_data:
  assumes "deref h p = Some (DataFrame df)"
  shows "map_sum id snd (returned (create_visualization_heap agg px_line h p m dr)) =
         map_sum id (\<lambda>daily. Some (DailyData daily)) (create_visualization agg df m dr)"
proof (cases "df = [] \<or> \<not> datetimelike (map r_date df) \<or> length dr < 2")
  case True
  have "create_visualization agg df m dr =
          Inl (if df = [] then KeyError
               else if \<not> datetimelike (map r_date df) then AttributeError else IndexError)"
    using True by (auto simp: create_visualization_def)
  then show ?thesis
    by (simp add: heap_early_exit [OF assms True] returned_def)
next
  case False
  then have ok: "df \<noteq> []" "datetimelike (map r_date df)" "\<not> length dr < 2"
    by simp_all
  show ?thesis
  proof (cases "str_in ''HeartRate'' m")
    case True
    have "create_visualization agg df m dr =
            Inr (Banded (map (\<lambda>(d, g). (d, agg ''mean'' g, agg ''min'' g, agg ''max'' g))
                           (groupby_date (filter (in_filter m (dr ! 0) (dr ! 1)) df))))"
      using ok True by (simp add: create_visualization_def)
    then show ?thesis
      by (simp only: heap_heart_rate [OF assms ok True]
            returned_def fst_conv snd_conv sum.case prod.case heart_rate_branch(1,2))
         simp
  next
    case False
    show ?thesis
    proof (cases "split_item1 ''Identifier'' m")
      case (Inl e)
      with split_item1_cases [of "''Identifier''" m] have e: "e = IndexError" by auto
      from Inl split_item1_IndexError [of m] have "\<not> str_in ''Identifier'' m" by auto
      then have "create_visualization agg df m dr = Inl IndexError"
        using ok False by (simp add: create_visualization_def Let_def)
      then show ?thesis
        by (simp only: heap_line [OF assms ok False] Inl e returned_def fst_conv sum.case)
           simp
    next
      case (Inr item)
      with split_item1_IndexError [of m] have "str_in ''Identifier'' m" by auto
      then have "create_visualization agg df m dr =
          Inr (Single (map (\<lambda>(d, g). (d, agg (if any_keyword m then ''sum'' else ''mean'') g))
                         (groupby_date (filter (in_filter m (dr ! 0) (dr ! 1)) df))))"
        using ok False by (simp add: create_visualization_def Let_def)
      then show ?thesis
        by (simp only: heap_line [OF assms ok False] Inr
              returned_def fst_conv snd_conv sum.case prod.case line_branch(1,2))
           simp
    qed
  qed
qed

section \<open>The claims\<close>

text \<open>
  C8. When the source document cannot be read or cannot be parsed as a tree, extraction
  fails as a whole: the exception is reported through \<open>st.error\<close> and the function
  returns \<open>None\<close>, no collection. In every run an error is reported exactly when no
  collection is returned, so a collection never comes together with an error.
\<close>

theorem fatal_extraction_returns_nothing:
  "(ET_parse uploaded_file = Inl e \<longrightarrow>
      parse_healthkit_export ET_parse float strptime uploaded_file = ([St_error e], None)) \<and>
   (fst (parse_healthkit_export ET_parse float strptime uploaded_file) = [] \<longleftrightarrow>
      snd (parse_healthkit_export ET_parse float strptime uploaded_file) \<noteq> None)"
  by (auto simp: parse_healthkit_export_def split: sum.splits)

theorem fatal_extraction_returns_nothing_witness:
  "parse_outcome (Inl ParseError) = Inl ParseError \<and>
   parse_healthkit_export parse_outcome py_float py_strptime (Inl ParseError) =
     ([St_error ParseError], None)"
proof -
  have h: "parse_outcome (Inl ParseError) = Inl ParseError"
    by (simp add: parse_outcome_def)
  from fatal_extraction_returns_nothing [of parse_outcome "Inl ParseError" ParseError
      py_float py_strptime] h
  show ?thesis by simp
qed

text \<open>
  C1, as stated, fails: for the range 2024-02-10 to 2024-02-01 the aggregator raises
  nothing and returns a result without rows.
\<close>

theorem inverted_range_counterexample:
  "((2024, 2, 1) :: date) < (2024, 2, 10) \<and>
   create_visualization pd_reduce example_frame ''HKQuantityTypeIdentifierBodyMass''
     [(2024, 2, 10), (2024, 2, 1)] = Inr (Single [])"
  by code_simp

text \<open>
  C1, amended. The function has no check of the range. When the start date is strictly
  after the end date, no observation passes the filter, and on a frame with rows whose
  timestamps share one offset, for an identifier holding "HeartRate" or "Identifier",
  the call raises nothing and returns the result without rows.
\<close>

theorem inverted_range_returns_empty:
  assumes "end_date < start_date"
    and "df \<noteq> []" and "datetimelike (map r_date df)"
    and "str_in ''HeartRate'' metric_type \<or> str_in ''Identifier'' metric_type"
  shows "create_visualization agg df metric_type [start_date, end_date] =
           Inr (if str_in ''HeartRate'' metric_type then Banded [] else Single [])"
  using assms(2-4) filter_in_filter_empty [OF assms(1)]
  by (auto simp: create_visualization_def Let_def groupby_date_def)

theorem inverted_range_returns_empty_witness:
  "((2024, 2, 1) :: date) < (2024, 2, 10) \<and> example_frame \<noteq> [] \<and>
   datetimelike (map r_date example_frame) \<and>
   str_in ''Identifier'' ''HKQuantityTypeIdentifierStepCount'' \<and>
   \<not> str_in ''HeartRate'' ''HKQuantityTypeIdentifierStepCount'' \<and>
   create_visualization pd_reduce example_frame ''HKQuantityTypeIdentifierStepCount''
     [(2024, 2, 10), (2024, 2, 1)] = Inr (Single [])"
proof -
  have h1: "((2024, 2, 1) :: date) < (2024, 2, 10)" by simp
  have h2: "example_frame \<noteq> []" by (simp add: example_frame_def)
  have h3: "datetimelike (map r_date example_frame)"
    by (simp add: datetimelike_def example_frame_def sample_def)
  have h4: "str_in ''Identifier'' ''HKQuantityTypeIdentifierStepCount''" by simp
  have h5: "\<not> str_in ''HeartRate'' ''HKQuantityTypeIdentifierStepCount''" by simp
  from inverted_range_returns_empty [OF h1 h2 h3 disjI2, OF h4, of pd_reduce] h1 h2 h3 h4 h5
  show ?thesis by simp
qed

text \<open>
  C2, as stated, fails: on a result without rows the summary raises nothing; it computes
  the three reductions of the empty column, which are NaN, and the count 0.
\<close>

theorem empty_summary_counterexample:
  "summary_statistics pd_reduce (Single []) = Inr (NaN, NaN, NaN, 0)"
  by (simp add: summary_statistics_def pd_reduce_def)

text \<open>
  C2, amended. On a result of the one-series shape without rows the summary signals
  nothing: it returns the mean, the maximum and the minimum that the reductions give for
  a column of no values, and the day count 0.
\<close>

theorem empty_summary_computed:
  "summary_statistics reduce (Single []) =
     Inr (reduce ''mean'' [], reduce ''max'' [], reduce ''min'' [], 0)"
  by (simp add: summary_statistics_def)

section \<open>The examples, evaluated\<close>

lemma example_heart_rate:
  "create_visualization pd_reduce example_frame ''HKQuantityTypeIdentifierHeartRate''
     [(2024, 2, 1), (2024, 2, 28)] =
   Inr (Banded [((2024, 2, 1), Finite 70, Finite 60, Finite 80),
                ((2024, 2, 3), Finite 65, Finite 65, Finite 65)])"
  by code_simp








text \<open>
  C4. Whenever the aggregator returns, for any range, the dates of the rows are strictly
  increasing, each lies between the start date and the end date (bounds included), and
  a date has a row exactly when some observation of the selected metric falls on it
  within the range: a date with no matching observation has no row.
\<close>

theorem dates_increasing_in_range:
  assumes "create_visualization agg df metric_type [start_date, end_date] = Inr daily"
  shows "sorted_wrt (<) (dates_of daily) \<and>
         (\<forall>d \<in> set (dates_of daily). start_date \<le> d \<and> d \<le> end_date) \<and>
         (\<forall>d. d \<in> set (dates_of daily) \<longleftrightarrow>
              (\<exists>r \<in> set df. r_type r = metric_type \<and> dt_date (r_date r) = d \<and>
                             start_date \<le> d \<and> d \<le> end_date))"
proof -
  let ?fdf = "filter (in_filter metric_type start_date end_date) df"
  have d: "dates_of daily = map fst (groupby_date ?fdf)"
    using assms by (rule create_visualization_dates)
  have s: "set (dates_of daily) = (\<lambda>r. dt_date (r_date r)) ` set ?fdf"
    by (simp only: d set_fst_groupby_date)
  have 1: "sorted_wrt (<) (dates_of daily)"
    by (simp only: d strict_sorted_groupby_date)
  have 3: "\<forall>d. d \<in> set (dates_of daily) \<longleftrightarrow>
              (\<exists>r \<in> set df. r_type r = metric_type \<and> dt_date (r_date r) = d \<and>
                             start_date \<le> d \<and> d \<le> end_date)"
    unfolding s image_iff by (fastforce simp: in_filter_def)
  from 3 have 2: "\<forall>d \<in> set (dates_of daily). start_date \<le> d \<and> d \<le> end_date"
    by blast
  from 1 2 3 show ?thesis by blast
qed

theorem dates_increasing_in_range_witness:
  "create_visualization pd_reduce example_frame ''HKQuantityTypeIdentifierHeartRate''
     [(2024, 2, 1), (2024, 2, 28)] =
   Inr (Banded [((2024, 2, 1), Finite 70, Finite 60, Finite 80),
                ((2024, 2, 3), Finite 65, Finite 65, Finite 65)]) \<and>
   sorted_wrt (<) [(2024, 2, 1), (2024, 2, 3) :: date] \<and>
   (2024, 2, 1) \<le> ((2024, 2, 3) :: date) \<and> (2024, 2, 3) \<le> ((2024, 2, 28) :: date) \<and>
   (2024, 2, 2) \<notin> set [(2024, 2, 1), (2024, 2, 3) :: date]"
proof -
  have "sorted_wrt (<) [(2024, 2, 1), (2024, 2, 3) :: date] \<and>
        (2024, 2, 1) \<le> ((2024, 2, 3) :: date) \<and> (2024, 2, 3) \<le> ((2024, 2, 28) :: date)"
    using dates_increasing_in_range [OF example_heart_rate] by simp
  then show ?thesis using example_heart_rate by simp
qed

text \<open>
  C10. An identifier that holds "HeartRate" gets the mean, minimum and maximum of each
  group whatever else it holds: the test for "HeartRate" comes first, and the test for
  "StepCount", "Distance" and "Energy" is made only when it fails. On a frame with rows
  whose timestamps share one offset the call returns the banded result.
\<close>

theorem heart_rate_takes_precedence:
  assumes "str_in ''HeartRate'' metric_type"
    and "df \<noteq> []" and "datetimelike (map r_date df)"
  shows "create_visualization agg df metric_type [start_date, end_date] =
           Inr (Banded (map (\<lambda>(d, g). (d, agg ''mean'' g, agg ''min'' g, agg ''max'' g))
                          (groupby_date (filter (in_filter metric_type start_date end_date) df))))"
  using assms by (simp add: create_visualization_def)

theorem heart_rate_takes_precedence_witness:
  "str_in ''HeartRate'' ''HKQuantityTypeIdentifierHeartRateEnergy'' \<and>
   str_in ''Energy'' ''HKQuantityTypeIdentifierHeartRateEnergy'' \<and>
   overlap_frame \<noteq> [] \<and> datetimelike (map r_date overlap_frame) \<and>
   create_visualization pd_reduce overlap_frame ''HKQuantityTypeIdentifierHeartRateEnergy''
     [(2024, 2, 1), (2024, 2, 1)] =
   Inr (Banded [((2024, 2, 1), Finite 1500, Finite 1000, Finite 2000)])"
proof -
  have h1: "str_in ''HeartRate'' ''HKQuantityTypeIdentifierHeartRateEnergy''" by simp
  have h1': "str_in ''Energy'' ''HKQuantityTypeIdentifierHeartRateEnergy''" by simp
  have h2: "overlap_frame \<noteq> []" by (simp add: overlap_frame_def)
  have h3: "datetimelike (map r_date overlap_frame)"
    by (simp add: datetimelike_def overlap_frame_def sample_def)
  have rows: "map (\<lambda>(d, g). (d, pd_reduce ''mean'' g, pd_reduce ''min'' g, pd_reduce ''max'' g))
       (groupby_date (filter (in_filter ''HKQuantityTypeIdentifierHeartRateEnergy''
                                (2024, 2, 1) (2024, 2, 1)) overlap_frame)) =
     [((2024, 2, 1), Finite 1500, Finite 1000, Finite 2000)]"
    by code_simp
  from heart_rate_takes_precedence [OF h1 h2 h3, of pd_reduce "(2024, 2, 1)" "(2024, 2, 1)"]
    rows h1 h1' h2 h3
  show ?thesis by simp
qed

text \<open>
  C9. On the heap, a call reads the caller's frame through its reference, allocates the
  objects it builds and changes only the figure it has itself allocated. So after a call
  the frame, and every object that existed before, is unchanged; calling again with the
  same arguments on the heap the first call left returns a figure and daily data equal
  to those of the first call; a later call with other arguments returns what it would
  have returned before the first call; and the daily data returned is the result of
  \<open>create_visualization\<close> on the contents of the frame.
\<close>

theorem aggregation_repeatable:
  assumes "deref h p = Some (DataFrame df)"
  shows "returned (create_visualization_heap agg px_line
                     (snd (create_visualization_heap agg px_line h p m dr)) p m dr) =
           returned (create_visualization_heap agg px_line h p m dr) \<and>
         (\<forall>q < length h.
            deref (snd (create_visualization_heap agg px_line h p m dr)) q = deref h q) \<and>
         deref (snd (create_visualization_heap agg px_line h p m dr)) p = Some (DataFrame df) \<and>
         returned (create_visualization_heap agg px_line
                     (snd (create_visualization_heap agg px_line h p m dr)) p m' dr') =
           returned (create_visualization_heap agg px_line h p m' dr') \<and>
         map_sum id snd (returned (create_visualization_heap agg px_line h p m dr)) =
           map_sum id (\<lambda>daily. Some (DailyData daily)) (create_visualization agg df m dr)"
proof -
  let ?h' = "snd (create_visualization_heap agg px_line h p m dr)"
  have p: "p < length h"
    using assms by (simp add: deref_def split: if_splits)
  have keep: "\<forall>q < length h. deref ?h' q = deref h q"
    using heap_frame [OF assms] by blast
  with p assms have same: "deref ?h' p = Some (DataFrame df)"
    by simp
  note again = returned_depends_on_frame [OF same assms]
  from again [of agg px_line m dr] again [of agg px_line m' dr'] keep same
    heap_daily_data [OF assms, of agg px_line m dr]
  show ?thesis by blast
qed

theorem aggregation_repeatable_witness:
  "deref [DataFrame example_frame] 0 = Some (DataFrame example_frame) \<and>
   returned (create_visualization_heap pd_reduce one_line [DataFrame example_frame] 0
               ''HKQuantityTypeIdentifierStepCount'' [(2024, 2, 1), (2024, 2, 28)]) =
     Inr (Some (Figure \<lparr>fig_data = [\<lparr>tr_name = '''', tr_x = [(2024, 2, 1)],
                                        tr_y = [Finite 3000], tr_color = ''''\<rparr>],
                          fig_title = Some ''Daily StepCount Over Time'',
                          fig_height = Some 500\<rparr>),
          Some (DailyData (Single [((2024, 2, 1), Finite 3000)]))) \<and>
   returned (create_visualization_heap pd_reduce one_line
               (snd (create_visualization_heap pd_reduce one_line [DataFrame example_frame] 0
                       ''HKQuantityTypeIdentifierStepCount'' [(2024, 2, 1), (2024, 2, 28)]))
               0 ''HKQuantityTypeIdentifierStepCount'' [(2024, 2, 1), (2024, 2, 28)]) =
     returned (create_visualization_heap pd_reduce one_line [DataFrame example_frame] 0
                 ''HKQuantityTypeIdentifierStepCount'' [(2024, 2, 1), (2024, 2, 28)]) \<and>
   deref (snd (create_visualization_heap pd_reduce one_line [DataFrame example_frame] 0
                 ''HKQuantityTypeIdentifierStepCount'' [(2024, 2, 1), (2024, 2, 28)])) 0 =
     Some (DataFrame example_frame)"
proof -
  have h: "deref [DataFrame example_frame] 0 = Some (DataFrame example_frame)"
    by (simp add: deref_def)
  have v: "returned (create_visualization_heap pd_reduce one_line [DataFrame example_frame] 0
               ''HKQuantityTypeIdentifierStepCount'' [(2024, 2, 1), (2024, 2, 28)]) =
     Inr (Some (Figure \<lparr>fig_data = [\<lparr>tr_name = '''', tr_x = [(2024, 2, 1)],
                                        tr_y = [Finite 3000], tr_color = ''''\<rparr>],
                          fig_title = Some ''Daily StepCount Over Time'',
                          fig_height = Some 500\<rparr>),
          Some (DailyData (Single [((2024, 2, 1), Finite 3000)])))"
    by code_simp
  note t = aggregation_repeatable [OF h, of pd_reduce one_line
      "''HKQuantityTypeIdentifierStepCount''" "[(2024, 2, 1), (2024, 2, 28)]"]
  from t [THEN conjunct1] t [THEN conjunct2, THEN conjunct2, THEN conjunct1] h v
  show ?thesis by blast
qed

section \<open>The export examples, evaluated\<close>

lemma produced_record_ok: "produced py_float py_strptime record_ok = [row_ok]"
  by code_simp

lemma produced_record_nan: "produced py_float py_strptime record_nan = [row_nan]"
  by code_simp

lemma findall_example_export:
  "findall_Record example_export =
     [record_ok, record_abc, record_unknown, record_no_value, record_bad_date]"
  by code_simp

lemma example_export_parsed:
  "parse_healthkit_export parse_outcome py_float py_strptime (Inr example_export) =
     ([], Some [row_ok])"
  by code_simp

text \<open>
  C5. Every observation produced for an element has the element's type, the type is in
  the flattened catalog, and its category is the one catalog category whose list holds
  the type. An element whose type is not in the flattened catalog produces nothing. The
  returned collection is the concatenation of what the found elements produce, so it has
  at most as many rows as there are elements.
\<close>

theorem category_resolved_and_count_bounded:
  "(r \<in> set (produced float strptime e) \<longrightarrow>
      get e ''type'' = Some (r_type r) \<and> r_type r \<in> set all_metrics \<and>
      (\<exists>ms. (r_category r, ms) \<in> set HEALTHKIT_METRICS \<and> r_type r \<in> set ms) \<and>
      (\<forall>cat ms. (cat, ms) \<in> set HEALTHKIT_METRICS \<and> r_type r \<in> set ms \<longrightarrow>
                cat = r_category r)) \<and>
   ((\<forall>t. get e ''type'' = Some t \<longrightarrow> t \<notin> set all_metrics) \<longrightarrow>
      produced float strptime e = []) \<and>
   (parse_healthkit_export ET_parse float strptime uploaded_file = (calls, Some df) \<longrightarrow>
      (\<exists>root_element. ET_parse uploaded_file = Inr root_element \<and>
         df = concat (map (produced float strptime) (findall_Record root_element)) \<and>
         length df \<le> length (findall_Record root_element)))"
proof -
  have 1: "get e ''type'' = Some (r_type r) \<and> r_type r \<in> set all_metrics \<and>
      (\<exists>ms. (r_category r, ms) \<in> set HEALTHKIT_METRICS \<and> r_type r \<in> set ms) \<and>
      (\<forall>cat ms. (cat, ms) \<in> set HEALTHKIT_METRICS \<and> r_type r \<in> set ms \<longrightarrow>
                cat = r_category r)"
    if "r \<in> set (produced float strptime e)"
  proof -
    from that have "loop_body float strptime e = Inr (Some r)"
      by (auto simp: produced_def split: sum.splits option.splits)
    from loop_body_fields [OF this]
    have t: "get e ''type'' = Some (r_type r)" "r_type r \<in> set all_metrics"
      and c: "next_category (r_type r) = Inr (r_category r)"
      by simp_all
    have u: "cat = r_category r"
      if "(cat, ms) \<in> set HEALTHKIT_METRICS \<and> r_type r \<in> set ms" for cat ms
      using category_of_metric [of cat ms "r_type r"] c that by simp
    from t next_category_member [OF c] u show ?thesis by blast
  qed
  have 2: "produced float strptime e = []"
    if "\<forall>t. get e ''type'' = Some t \<longrightarrow> t \<notin> set all_metrics"
    using loop_body_unrecognised [OF that, of float strptime] by (simp add: produced_def)
  have 3: "\<exists>root_element. ET_parse uploaded_file = Inr root_element \<and>
         df = concat (map (produced float strptime) (findall_Record root_element)) \<and>
         length df \<le> length (findall_Record root_element)"
    if "parse_healthkit_export ET_parse float strptime uploaded_file = (calls, Some df)"
  proof -
    from that obtain root_element where r: "ET_parse uploaded_file = Inr root_element"
      and f: "for_records float strptime (findall_Record root_element) [] = Inr df"
      by (auto simp: parse_healthkit_export_def split: sum.splits)
    from for_records_produced [OF f]
    have d: "df = concat (map (produced float strptime) (findall_Record root_element))"
      by simp
    with length_concat_produced [of float strptime "findall_Record root_element"] r
    show ?thesis by auto
  qed
  from 1 2 3 show ?thesis by blast
qed

theorem category_resolved_and_count_bounded_witness:
  "row_ok \<in> set (produced py_float py_strptime record_ok) \<and>
   get record_ok ''type'' = Some (r_type row_ok) \<and> r_type row_ok \<in> set all_metrics \<and>
   r_category row_ok = ''Vital Signs'' \<and>
   get record_unknown ''type'' = Some ''HKQuantityTypeIdentifierAppleExerciseTime'' \<and>
   ''HKQuantityTypeIdentifierAppleExerciseTime'' \<notin> set all_metrics \<and>
   produced py_float py_strptime record_unknown = [] \<and>
   parse_healthkit_export parse_outcome py_float py_strptime (Inr example_export) =
     ([], Some [row_ok]) \<and>
   length [row_ok] \<le> length (findall_Record example_export)"
proof -
  have h1: "row_ok \<in> set (produced py_float py_strptime record_ok)"
    by (simp add: produced_record_ok)
  have h2: "get record_unknown ''type'' = Some ''HKQuantityTypeIdentifierAppleExerciseTime''"
    by (simp add: get_def record_unknown_def)
  have h3: "''HKQuantityTypeIdentifierAppleExerciseTime'' \<notin> set all_metrics"
    by code_simp
  have h4: "\<forall>t. get record_unknown ''type'' = Some t \<longrightarrow> t \<notin> set all_metrics"
    using h2 h3 by simp
  have c: "r_category row_ok = ''Vital Signs''"
    by (simp add: row_ok_def)
  have p: "parse_outcome (Inr example_export) = Inr example_export"
    by (simp add: parse_outcome_def)
  note ok = category_resolved_and_count_bounded
         [of row_ok py_float py_strptime record_ok parse_outcome "Inr example_export" "[]" "[row_ok]"]
  from ok [THEN conjunct1, THEN mp, OF h1]
  have a1: "get record_ok ''type'' = Some (r_type row_ok) \<and> r_type row_ok \<in> set all_metrics"
    by blast
  from ok [THEN conjunct2, THEN conjunct2, THEN mp, OF example_export_parsed]
  obtain root_element where "parse_outcome (Inr example_export) = Inr root_element"
    and "length [row_ok] \<le> length (findall_Record root_element)"
    by blast
  with p have a2: "length [row_ok] \<le> length (findall_Record example_export)"
    by simp
  from category_resolved_and_count_bounded
         [of row_ok py_float py_strptime record_unknown parse_outcome "Inr example_export" "[]" "[row_ok]",
          THEN conjunct2, THEN conjunct1, THEN mp, OF h4]
  have b: "produced py_float py_strptime record_unknown = []" .
  from a1 a2 b c h1 h2 h3 example_export_parsed show ?thesis by blast
qed

text \<open>
  C6, as stated, fails: an element whose value attribute is \<open>nan\<close> is kept, and the
  returned collection holds an observation whose value is not finite.
\<close>

theorem nan_value_counterexample:
  "parse_healthkit_export parse_outcome py_float py_strptime
     (Inr (Element ''HealthData'' [] [record_nan])) = ([], Some [row_nan]) \<and>
   r_value row_nan = NaN \<and> \<not> isfinite (r_value row_nan)"
  by code_simp

text \<open>
  C6, amended. The value of every observation of the returned collection is what
  \<open>float\<close> returned for the value attribute of its element; and an element of a
  recognised type whose value and timestamp both parse is kept with the parsed value,
  whatever it is, a NaN and the infinities included.
\<close>

theorem values_are_float_results:
  "(r \<in> set (produced float strptime e) \<longrightarrow> float (get e ''value'') = Inr (r_value r)) \<and>
   (get e ''type'' = Some t \<and> t \<in> set all_metrics \<and> float (get e ''value'') = Inr v \<and>
    strptime (get e ''startDate'') = Inr d \<longrightarrow>
      (\<exists>row. produced float strptime e = [row] \<and> r_value row = v)) \<and>
   (parse_healthkit_export ET_parse float strptime uploaded_file = (calls, Some df) \<longrightarrow>
      (\<forall>row \<in> set df. \<exists>root_element record.
         ET_parse uploaded_file = Inr root_element \<and>
         record \<in> set (findall_Record root_element) \<and>
         float (get record ''value'') = Inr (r_value row)))"
proof -
  have value_of: "float (get x ''value'') = Inr (r_value row)"
    if "row \<in> set (produced float strptime x)" for row x
  proof -
    from that have "loop_body float strptime x = Inr (Some row)"
      by (auto simp: produced_def split: sum.splits option.splits)
    from loop_body_fields [OF this] show ?thesis by simp
  qed
  have 2: "\<exists>row. produced float strptime e = [row] \<and> r_value row = v"
    if "get e ''type'' = Some t \<and> t \<in> set all_metrics \<and> float (get e ''value'') = Inr v \<and>
        strptime (get e ''startDate'') = Inr d"
  proof -
    from that next_category_defined [of t] obtain cat where "next_category t = Inr cat"
      by blast
    with that show ?thesis
      by (simp add: produced_def loop_body_def try_body_def)
  qed
  have 3: "\<forall>row \<in> set df. \<exists>root_element record.
         ET_parse uploaded_file = Inr root_element \<and>
         record \<in> set (findall_Record root_element) \<and>
         float (get record ''value'') = Inr (r_value row)"
    if "parse_healthkit_export ET_parse float strptime uploaded_file = (calls, Some df)"
  proof -
    from that obtain root_element where r: "ET_parse uploaded_file = Inr root_element"
      and f: "for_records float strptime (findall_Record root_element) [] = Inr df"
      by (auto simp: parse_healthkit_export_def split: sum.splits)
    from for_records_produced [OF f]
    have d: "df = concat (map (produced float strptime) (findall_Record root_element))"
      by simp
    show ?thesis
    proof
      fix row assume "row \<in> set df"
      with d obtain x where "x \<in> set (findall_Record root_element)"
        and "row \<in> set (produced float strptime x)"
        by auto
      with value_of r show "\<exists>root_element record.
         ET_parse uploaded_file = Inr root_element \<and>
         record \<in> set (findall_Record root_element) \<and>
         float (get record ''value'') = Inr (r_value row)"
        by blast
    qed
  qed
  from value_of [of r e] 2 3 show ?thesis by blast
qed

theorem values_are_float_results_witness:
  "row_nan \<in> set (produced py_float py_strptime record_nan) \<and>
   py_float (get record_nan ''value'') = Inr (r_value row_nan) \<and>
   r_value row_nan = NaN \<and>
   get record_nan ''value'' = Some ''nan''"
proof -
  have h: "row_nan \<in> set (produced py_float py_strptime record_nan)"
    by (simp add: produced_record_nan)
  have v: "r_value row_nan = NaN" by (simp add: row_nan_def)
  have g: "get record_nan ''value'' = Some ''nan''"
    by (simp add: get_def record_nan_def)
  from values_are_float_results [of row_nan py_float py_strptime record_nan,
         THEN conjunct1, THEN mp, OF h]
  have "py_float (get record_nan ''value'') = Inr (r_value row_nan)" .
  with h v g show ?thesis by blast
qed

text \<open>
  C7. An element of a recognised type for which \<open>float\<close> raises \<open>ValueError\<close> (the value
  is not numeric) or \<open>TypeError\<close> (the attribute is missing), or for which \<open>strptime\<close>
  raises one of the two, produces no observation, and the loop goes on as if the element
  were not there: the result for the whole list, failure or collection, is the one
  without it. When \<open>float\<close> and \<open>strptime\<close> raise nothing else, as the library functions
  do, extraction of a document that parses as a tree never fails.
\<close>

theorem malformed_element_skipped:
  assumes "get e ''type'' = Some t" and "t \<in> set all_metrics"
    and "float (get e ''value'') = Inl ValueError \<or> float (get e ''value'') = Inl TypeError \<or>
         (\<exists>v. float (get e ''value'') = Inr v) \<and>
         (strptime (get e ''startDate'') = Inl ValueError \<or>
          strptime (get e ''startDate'') = Inl TypeError)"
  shows "produced float strptime e = [] \<and>
         loop_body float strptime e = Inr None \<and>
         for_records float strptime (pre @ e # post) acc =
           for_records float strptime (pre @ post) acc \<and>
         ((\<forall>s x. float s = Inl x \<longrightarrow> x = ValueError \<or> x = TypeError) \<and>
          (\<forall>s x. strptime s = Inl x \<longrightarrow> x = ValueError \<or> x = TypeError) \<and>
          ET_parse uploaded_file = Inr root_element \<longrightarrow>
            (\<exists>df. parse_healthkit_export ET_parse float strptime uploaded_file = ([], Some df)))"
proof -
  have "try_body float strptime e t = Inl ValueError \<or> try_body float strptime e t = Inl TypeError"
    using assms(3) by (auto simp: try_body_def)
  with assms(1,2) have skip: "loop_body float strptime e = Inr None"
    by (auto simp: loop_body_def)
  then have none: "produced float strptime e = []"
    by (simp add: produced_def)
  have whole: "\<exists>df. parse_healthkit_export ET_parse float strptime uploaded_file = ([], Some df)"
    if "(\<forall>s x. float s = Inl x \<longrightarrow> x = ValueError \<or> x = TypeError) \<and>
        (\<forall>s x. strptime s = Inl x \<longrightarrow> x = ValueError \<or> x = TypeError) \<and>
        ET_parse uploaded_file = Inr root_element"
  proof -
    from that for_records_total [of float strptime "findall_Record root_element" "[]"]
    obtain out where "for_records float strptime (findall_Record root_element) [] = Inr out"
      by blast
    with that show ?thesis
      by (simp add: parse_healthkit_export_def)
  qed
  from none skip for_records_skip [OF skip] whole show ?thesis by blast
qed

theorem malformed_element_skipped_witness:
  "get record_abc ''type'' = Some ''HKQuantityTypeIdentifierHeartRate'' \<and>
   ''HKQuantityTypeIdentifierHeartRate'' \<in> set all_metrics \<and>
   py_float (get record_abc ''value'') = Inl ValueError \<and>
   produced py_float py_strptime record_abc = [] \<and>
   get record_no_value ''type'' = Some ''HKQuantityTypeIdentifierBodyMass'' \<and>
   ''HKQuantityTypeIdentifierBodyMass'' \<in> set all_metrics \<and>
   py_float (get record_no_value ''value'') = Inl TypeError \<and>
   produced py_float py_strptime record_no_value = [] \<and>
   get record_bad_date ''type'' = Some ''HKQuantityTypeIdentifierStepCount'' \<and>
   ''HKQuantityTypeIdentifierStepCount'' \<in> set all_metrics \<and>
   py_float (get record_bad_date ''value'') = Inr (Finite 12) \<and>
   py_strptime (get record_bad_date ''startDate'') = Inl ValueError \<and>
   produced py_float py_strptime record_bad_date = [] \<and>
   for_records py_float py_strptime ([record_ok] @ record_abc # [record_nan]) [] =
     for_records py_float py_strptime ([record_ok] @ [record_nan]) [] \<and>
   parse_healthkit_export parse_outcome py_float py_strptime (Inr example_export) =
     ([], Some [row_ok])"
proof -
  have a1: "get record_abc ''type'' = Some ''HKQuantityTypeIdentifierHeartRate''"
    by (simp add: get_def record_abc_def)
  have a2: "''HKQuantityTypeIdentifierHeartRate'' \<in> set all_metrics" by code_simp
  have a3: "py_float (get record_abc ''value'') = Inl ValueError" by code_simp
  have b1: "get record_no_value ''type'' = Some ''HKQuantityTypeIdentifierBodyMass''"
    by (simp add: get_def record_no_value_def)
  have b2: "''HKQuantityTypeIdentifierBodyMass'' \<in> set all_metrics" by code_simp
  have b3: "py_float (get record_no_value ''value'') = Inl TypeError" by code_simp
  have c1: "get record_bad_date ''type'' = Some ''HKQuantityTypeIdentifierStepCount''"
    by (simp add: get_def record_bad_date_def)
  have c2: "''HKQuantityTypeIdentifierStepCount'' \<in> set all_metrics" by code_simp
  have c3: "py_float (get record_bad_date ''value'') = Inr (Finite 12)" by code_simp
  have c4: "py_strptime (get record_bad_date ''startDate'') = Inl ValueError" by code_simp
  note abc = malformed_element_skipped [of record_abc _ py_float py_strptime,
         OF a1 a2 disjI1, OF a3, of "[record_ok]" "[record_nan]" "[]"]
  have a: "produced py_float py_strptime record_abc = []"
    by (rule abc [THEN conjunct1])
  have a': "for_records py_float py_strptime ([record_ok] @ record_abc # [record_nan]) [] =
             for_records py_float py_strptime ([record_ok] @ [record_nan]) []"
    by (rule abc [THEN conjunct2, THEN conjunct2, THEN conjunct1])
  have b: "produced py_float py_strptime record_no_value = []"
    by (rule malformed_element_skipped [of record_no_value _ py_float py_strptime,
         OF b1 b2 disjI2, OF disjI1, OF b3, THEN conjunct1])
  have c3': "\<exists>v. py_float (get record_bad_date ''value'') = Inr v"
    using c3 by blast
  have c: "produced py_float py_strptime record_bad_date = []"
    by (rule malformed_element_skipped [of record_bad_date _ py_float py_strptime,
         OF c1 c2 disjI2, OF disjI2, OF conjI, OF c3' disjI1, OF c4, THEN conjunct1])
  from a a' b c a1 a2 a3 b1 b2 b3 c1 c2 c3 c4 example_export_parsed show ?thesis by blast
qed

end

